theory Spec2Isabelle
  imports Complex_Main "HOL-Library.Word"
begin

section \<open>Data model of the firewall decision core\<close>

text \<open>
  The deciders of package \<open>firewall\<close> work on a \<open>network.Connection\<close>, a
  \<open>profile.LayeredProfile\<close> and an optional \<open>packet.Packet\<close>. These types are declared
  in packages whose files are not part of the sources at hand; the declarations below
  hold exactly the fields and method results that the source reads or writes.
\<close>

text \<open>Modelled from the spec: \<open>network.Verdict\<close> (package network is missing), the six
  verdict values of the data model.\<close>

datatype Verdict =
  VerdictUndecided | VerdictUndeterminable | VerdictAccept | VerdictBlock | VerdictDrop
  | VerdictDeny

text \<open>Modelled from the spec: \<open>network.ConnType\<close> (package network is missing).\<close>

datatype ConnType = DNSRequest | IPConnection

text \<open>Modelled from the spec: \<open>netutils.IPScope\<close> (package netutils is missing), the
  eight address scopes.\<close>

datatype IPScope =
  HostLocal | LinkLocal | SiteLocal | LocalMulticast | Global | GlobalMulticast | Unknown
  | Invalid

text \<open>Modelled from the spec: the scope predicates \<open>IsLocalhost\<close>, \<open>IsLAN\<close>,
  \<open>IsGlobal\<close> of \<open>netutils.IPScope\<close> (missing). The grouping is the one
  \<open>checkConnectionScope\<close> switches on: Localhost is HostLocal; LAN is SiteLocal, LinkLocal
  and LocalMulticast; Global is Global and GlobalMulticast.\<close>

fun IsLocalhost :: "IPScope \<Rightarrow> bool" where
  "IsLocalhost HostLocal = True"
| "IsLocalhost _ = False"

fun IsLAN :: "IPScope \<Rightarrow> bool" where
  "IsLAN SiteLocal = True"
| "IsLAN LinkLocal = True"
| "IsLAN LocalMulticast = True"
| "IsLAN _ = False"

fun IsGlobal :: "IPScope \<Rightarrow> bool" where
  "IsGlobal Global = True"
| "IsGlobal GlobalMulticast = True"
| "IsGlobal _ = False"

text \<open>Modelled from the spec: \<open>endpoints.EPResult\<close> (package endpoints is missing), the
  ternary match result.\<close>

datatype EPResult = NoMatch | Denied | Permitted

text \<open>Modelled from the spec: the default action of a profile (the constants
  \<open>profile.DefaultActionNotSet\<close>, \<open>DefaultActionBlock\<close>, \<open>DefaultActionAsk\<close>,
  \<open>DefaultActionPermit\<close> are missing).\<close>

datatype DefaultAction =
  DefaultActionNotSet | DefaultActionBlock | DefaultActionAsk | DefaultActionPermit

text \<open>The structured context that comes with a reason: string keys and values.\<close>

type_synonym ReasonCtx = "(string \<times> string) list"

text \<open>\<open>endpoints.Reason\<close>: what \<open>reason.String()\<close> and \<open>reason.Context()\<close> return.\<close>

record Reason =
  ReasonString :: string
  ReasonContext :: ReasonCtx

text \<open>\<open>intel.Entity\<close>: the remote side. \<open>Lists\<close> are the matched filter-list categories.\<close>

record Entity =
  Domain :: string
  IPScope :: IPScope
  Lists :: "string list"

text \<open>Modelled from the spec: \<open>Entity.ResetLists\<close> (package intel is missing) clears the
  matched categories.\<close>

definition ResetLists :: "Entity \<Rightarrow> Entity" where
  "ResetLists e = e\<lparr>Lists := []\<rparr>"

text \<open>
  \<open>profile.LayeredProfile\<close>: each configuration method is the field of its name; the
  matchers receive the connection's entity pointer, which may be nil. \<open>NeedsUpdate\<close> and
  \<open>RevisionCnt\<close> are what the methods of these names return.
\<close>

record LayeredProfile =
  BlockInbound :: bool
  BlockP2P :: bool
  BlockScopeInternet :: bool
  BlockScopeLAN :: bool
  BlockScopeLocal :: bool
  PreventBypassingOpt :: bool
  DomainHeuristics :: bool
  DisableAutoPermit :: bool
  RemoveOutOfScopeDNS :: bool
  MatchEndpoint :: "Entity option \<Rightarrow> EPResult \<times> Reason"
  MatchServiceEndpoint :: "Entity option \<Rightarrow> EPResult \<times> Reason"
  MatchFilterLists :: "Entity option \<Rightarrow> EPResult \<times> Reason"
  DefaultActionOf :: DefaultAction
  RevisionCnt :: "64 word"
  NeedsUpdate :: bool

text \<open>\<open>process.Process\<close>; \<open>Profile\<close> is the pointer \<open>Process().Profile()\<close> returns.\<close>

record Process =
  Pid :: int
  Path :: string
  Name :: string
  ExecName :: string
  IsSystemResolver :: bool
  Profile :: "LayeredProfile option"

record ResolverInfo =
  ResolverIPScope :: IPScope

text \<open>\<open>network.Connection\<close>. \<open>Entity\<close> and \<open>Resolver\<close> are pointers.\<close>

record Connection =
  ConnType :: ConnType
  Inbound :: bool
  ConnEntity :: "Entity option"
  ConnProcess :: Process
  Resolver :: "ResolverInfo option"
  Verdict :: Verdict
  ReasonMsg :: string
  ReasonOptionKey :: string
  ReasonCtx :: ReasonCtx
  Internal :: bool
  ProfileRevisionCounter :: "64 word"
  saveWhenFinished :: bool

text \<open>\<open>net.IP\<close> is a byte slice.\<close>

type_synonym IP = "8 word list"

record PacketInfo =
  InfoInbound :: bool
  InfoVersion :: nat
  InfoProtocol :: nat
  Src :: IP
  SrcPort :: nat
  Dst :: IP
  DstPort :: nat

text \<open>\<open>packet.Packet\<close>: the results of \<open>pkt.IsOutbound()\<close> and \<open>pkt.Info()\<close>.\<close>

record Packet =
  IsOutbound :: bool
  Info :: PacketInfo

text \<open>A run-time panic of the Go program.\<close>

datatype panic =
  NilPointerDereference | SliceBoundsOutOfRange | CloseOfClosedChannel | CloseOfNilChannel

text \<open>
  What the deciders obtain from outside the package: the own PID, the socket-table and
  process lookups, the network environment, the bypass module, the public-suffix list,
  the LMS scorers of package dga, the Levenshtein library, the answer of the prompt, the
  recomposition of a profile's layers, and the option keys of package profile.
\<close>

record Env =
  ownPID :: int
  state_Lookup :: "PacketInfo \<Rightarrow> bool \<Rightarrow> string + int"
  GetOrFindProcess :: "int \<Rightarrow> string + Process"
  GetOnlineStatus :: nat
  StatusPortal :: nat
  IsConnectivityDomain :: "string \<Rightarrow> bool"
  PreventBypassing :: "Connection \<Rightarrow> EPResult \<times> string \<times> ReasonCtx"
  EffectiveTLDPlusOne :: "string \<Rightarrow> string + string"
  LmsScore :: "string \<Rightarrow> real"
  LmsScoreOfDomain :: "string \<Rightarrow> real"
  levenshtein_Match :: "string \<Rightarrow> string \<Rightarrow> real"
  promptAnswer :: "Connection \<Rightarrow> Packet option \<Rightarrow> Verdict \<times> string \<times> string"
  recompose :: "LayeredProfile \<Rightarrow> LayeredProfile"
  CfgOptionDefaultActionKey :: string
  CfgOptionServiceEndpointsKey :: string
  CfgOptionEndpointsKey :: string
  CfgOptionBlockInboundKey :: string
  CfgOptionBlockP2PKey :: string
  CfgOptionBlockScopeInternetKey :: string
  CfgOptionBlockScopeLANKey :: string
  CfgOptionBlockScopeLocalKey :: string
  CfgOptionPreventBypassingKey :: string
  CfgOptionFilterListsKey :: string
  CfgOptionRemoveOutOfScopeDNSKey :: string
  CfgOptionDomainHeuristicsKey :: string
  CfgOptionDisableAutoPermitKey :: string

section \<open>Library functions\<close>

text \<open>\<open>strings.Split\<close> for a separator of one byte.\<close>

fun strings_Split :: "string \<Rightarrow> char \<Rightarrow> string list" where
  "strings_Split [] sep = [[]]"
| "strings_Split (c # cs) sep =
     (if c = sep then [] # strings_Split cs sep
      else (case strings_Split cs sep of
              [] \<Rightarrow> [[c]]
            | x # xs \<Rightarrow> (c # x) # xs))"

text \<open>\<open>strings.TrimRight\<close>: drops every trailing byte that is in the cutset.\<close>

definition strings_TrimRight :: "string \<Rightarrow> string \<Rightarrow> string" where
  "strings_TrimRight s cutset = rev (dropWhile (\<lambda>c. c \<in> set cutset) (rev s))"

text \<open>\<open>filepath.Separator\<close> on the platforms with a slash.\<close>

definition filepath_Separator :: char where
  "filepath_Separator = CHR ''/''"

text \<open>\<open>net.IP.Equal\<close>: an IPv4 address equals its IPv4-in-IPv6 form.\<close>

definition v4InV6Prefix :: "8 word list" where
  "v4InV6Prefix = [0, 0, 0, 0, 0, 0, 0, 0, 0, 0, 0xff, 0xff]"

definition IP_Equal :: "IP \<Rightarrow> IP \<Rightarrow> bool" where
  "IP_Equal ip x =
     (if length ip = length x then ip = x
      else if length ip = 4 \<and> length x = 16 then take 12 x = v4InV6Prefix \<and> ip = drop 12 x
      else if length ip = 16 \<and> length x = 4 then take 12 ip = v4InV6Prefix \<and> drop 12 ip = x
      else False)"

section \<open>Verdict setters\<close>

text \<open>Modelled from the spec: the verdict setters of \<open>network.Connection\<close> (package
  network is missing): \<open>Accept\<close>, \<open>Block\<close>, \<open>Drop\<close> and \<open>Deny\<close> take a reason and an option
  key, the \<open>WithContext\<close> variants a structured context as well; each moves the
  connection to the verdict of its name.\<close>

definition SetVerdict :: "Verdict \<Rightarrow> string \<Rightarrow> string \<Rightarrow> ReasonCtx \<Rightarrow> Connection \<Rightarrow> Connection" where
  "SetVerdict v reason key rctx conn =
     conn\<lparr>Verdict := v, ReasonMsg := reason, ReasonOptionKey := key, ReasonCtx := rctx\<rparr>"

definition Accept :: "string \<Rightarrow> string \<Rightarrow> Connection \<Rightarrow> Connection" where
  "Accept reason key conn = SetVerdict VerdictAccept reason key [] conn"

definition Block :: "string \<Rightarrow> string \<Rightarrow> Connection \<Rightarrow> Connection" where
  "Block reason key conn = SetVerdict VerdictBlock reason key [] conn"

definition Drop :: "string \<Rightarrow> string \<Rightarrow> Connection \<Rightarrow> Connection" where
  "Drop reason key conn = SetVerdict VerdictDrop reason key [] conn"

definition Deny :: "string \<Rightarrow> string \<Rightarrow> Connection \<Rightarrow> Connection" where
  "Deny reason key conn = SetVerdict VerdictDeny reason key [] conn"

definition AcceptWithContext :: "string \<Rightarrow> string \<Rightarrow> ReasonCtx \<Rightarrow> Connection \<Rightarrow> Connection" where
  "AcceptWithContext reason key rctx conn = SetVerdict VerdictAccept reason key rctx conn"

definition BlockWithContext :: "string \<Rightarrow> string \<Rightarrow> ReasonCtx \<Rightarrow> Connection \<Rightarrow> Connection" where
  "BlockWithContext reason key rctx conn = SetVerdict VerdictBlock reason key rctx conn"

definition DenyWithContext :: "string \<Rightarrow> string \<Rightarrow> ReasonCtx \<Rightarrow> Connection \<Rightarrow> Connection" where
  "DenyWithContext reason key rctx conn = SetVerdict VerdictDeny reason key rctx conn"

text \<open>\<open>conn.SaveWhenFinished()\<close> marks the connection dirty.\<close>

definition SaveWhenFinished :: "Connection \<Rightarrow> Connection" where
  "SaveWhenFinished conn = conn\<lparr>saveWhenFinished := True\<rparr>"

text \<open>Modelled from the spec: \<open>LayeredProfile.Update\<close> (package profile is missing)
  recomposes the layers and returns the new revision counter. The recomposed profile is
  the environment's; it takes the place of the old one behind the process's pointer.\<close>

definition Update :: "Env \<Rightarrow> LayeredProfile \<Rightarrow> LayeredProfile \<times> 64 word" where
  "Update env lp = (let lp' = recompose env lp in (lp', RevisionCnt lp'))"

definition noReasonOptionKey :: string where
  "noReasonOptionKey = ''''"

section \<open>The deciders\<close>

text \<open>
  A decider returns whether it concluded, with the connection as it leaves it; a panic
  ends the call. The context argument only carries the tracer and is left out.
\<close>

type_synonym deciderFn =
  "Env \<Rightarrow> Connection \<Rightarrow> LayeredProfile \<Rightarrow> Packet option \<Rightarrow> panic + (bool \<times> Connection)"

definition checkPortmasterConnection :: deciderFn where
  "checkPortmasterConnection env conn lp pkt =
     (if Pid (ConnProcess conn) = ownPID env
         \<and> (case pkt of None \<Rightarrow> True | Some p \<Rightarrow> IsOutbound p)
      then Inr (True, (Accept ''connection by Portmaster'' noReasonOptionKey conn)\<lparr>Internal := True\<rparr>)
      else Inr (False, conn))"

definition checkSelfCommunication :: deciderFn where
  "checkSelfCommunication env conn lp pkt =
     (case pkt of
        None \<Rightarrow> Inr (False, conn)
      | Some p \<Rightarrow>
          (let pktInfo = Info p in
           if Pid (ConnProcess conn) \<ge> 0 \<and> IP_Equal (Src pktInfo) (Dst pktInfo) then
             (case state_Lookup env (pktInfo\<lparr>InfoInbound := \<not> InfoInbound pktInfo\<rparr>) True of
                Inl err \<Rightarrow> Inr (False, conn)
              | Inr otherPid \<Rightarrow>
                  (case GetOrFindProcess env otherPid of
                     Inl err \<Rightarrow> Inr (False, conn)
                   | Inr otherProcess \<Rightarrow>
                       if Path otherProcess = Path (ConnProcess conn)
                       then Inr (True, (Accept ''process internal connection'' noReasonOptionKey conn)
                                         \<lparr>Internal := True\<rparr>)
                       else Inr (False, conn)))
           else Inr (False, conn)))"

definition checkEndpointLists :: deciderFn where
  "checkEndpointLists env conn p pkt =
     (case (if Inbound conn
            then (case MatchServiceEndpoint p (ConnEntity conn) of
                    (res, rsn) \<Rightarrow> (res, rsn, CfgOptionServiceEndpointsKey env))
            else (case MatchEndpoint p (ConnEntity conn) of
                    (res, rsn) \<Rightarrow> (res, rsn, CfgOptionEndpointsKey env))) of
        (result, reason, optionKey) \<Rightarrow>
          (case result of
             Denied \<Rightarrow>
               Inr (True, DenyWithContext (ReasonString reason) optionKey (ReasonContext reason) conn)
           | Permitted \<Rightarrow>
               Inr (True, AcceptWithContext (ReasonString reason) optionKey (ReasonContext reason) conn)
           | NoMatch \<Rightarrow> Inr (False, conn)))"

definition checkConnectionType :: deciderFn where
  "checkConnectionType env conn p pkt =
     (if ConnType conn \<noteq> IPConnection then Inr (False, conn)
      else case ConnEntity conn of
             None \<Rightarrow> Inl NilPointerDereference
           | Some e \<Rightarrow>
               if Inbound conn \<and> \<not> IsLocalhost (IPScope e) \<and> BlockInbound p
               then Inr (True, Drop ''inbound connections blocked'' (CfgOptionBlockInboundKey env) conn)
               else if IsGlobal (IPScope e) \<and> Domain e = [] \<and> BlockP2P p
               then Inr (True, Block ''direct connections (P2P) blocked'' (CfgOptionBlockP2PKey env) conn)
               else Inr (False, conn))"

definition checkConnectivityDomain :: deciderFn where
  "checkConnectivityDomain env conn p pkt =
     (case ConnEntity conn of
        None \<Rightarrow> Inl NilPointerDereference
      | Some e \<Rightarrow>
          if Domain e = [] then Inr (False, conn)
          else if GetOnlineStatus env > StatusPortal env then Inr (False, conn)
          else if Inbound conn then Inr (False, conn)
          else if BlockScopeInternet p then Inr (False, conn)
          else if IsConnectivityDomain env (Domain e)
          then Inr (True, Accept ''special grant for connectivity domain during network bootstrap''
                            noReasonOptionKey conn)
          else Inr (False, conn))"

definition checkConnectionScope :: deciderFn where
  "checkConnectionScope env conn p pkt =
     (if ConnType conn = DNSRequest then
        (if BlockScopeInternet p \<and> BlockScopeLAN p
         then Inr (True, Block ''Internet and LAN access blocked''
                           (CfgOptionBlockScopeInternetKey env) conn)
         else Inr (False, conn))
      else case ConnEntity conn of
             None \<Rightarrow> Inl NilPointerDereference
           | Some e \<Rightarrow>
               (case IPScope e of
                  Global \<Rightarrow>
                    if BlockScopeInternet p
                    then Inr (True, Deny ''Internet access blocked''
                                      (CfgOptionBlockScopeInternetKey env) conn)
                    else Inr (False, conn)
                | GlobalMulticast \<Rightarrow>
                    if BlockScopeInternet p
                    then Inr (True, Deny ''Internet access blocked''
                                      (CfgOptionBlockScopeInternetKey env) conn)
                    else Inr (False, conn)
                | SiteLocal \<Rightarrow>
                    if BlockScopeLAN p
                    then Inr (True, Block ''LAN access blocked'' (CfgOptionBlockScopeLANKey env) conn)
                    else Inr (False, conn)
                | LinkLocal \<Rightarrow>
                    if BlockScopeLAN p
                    then Inr (True, Block ''LAN access blocked'' (CfgOptionBlockScopeLANKey env) conn)
                    else Inr (False, conn)
                | LocalMulticast \<Rightarrow>
                    if BlockScopeLAN p
                    then Inr (True, Block ''LAN access blocked'' (CfgOptionBlockScopeLANKey env) conn)
                    else Inr (False, conn)
                | HostLocal \<Rightarrow>
                    if BlockScopeLocal p
                    then Inr (True, Block ''Localhost access blocked''
                                      (CfgOptionBlockScopeLocalKey env) conn)
                    else Inr (False, conn)
                | Unknown \<Rightarrow> Inr (True, Deny ''invalid IP'' noReasonOptionKey conn)
                | Invalid \<Rightarrow> Inr (True, Deny ''invalid IP'' noReasonOptionKey conn)))"

definition checkBypassPrevention :: deciderFn where
  "checkBypassPrevention env conn p pkt =
     (if PreventBypassingOpt p then
        (case PreventBypassing env conn of
           (result, reason, reasonCtx) \<Rightarrow>
             (case result of
                Denied \<Rightarrow>
                  Inr (True, BlockWithContext (''bypass prevention: '' @ reason)
                               (CfgOptionPreventBypassingKey env) reasonCtx conn)
              | Permitted \<Rightarrow>
                  Inr (True, AcceptWithContext (''bypass prevention: '' @ reason)
                               (CfgOptionPreventBypassingKey env) reasonCtx conn)
              | NoMatch \<Rightarrow> Inr (False, conn)))
      else Inr (False, conn))"

definition checkFilterLists :: deciderFn where
  "checkFilterLists env conn p pkt =
     (case MatchFilterLists p (ConnEntity conn) of
        (result, reason) \<Rightarrow>
          (case result of
             Denied \<Rightarrow>
               Inr (True, DenyWithContext (ReasonString reason) (CfgOptionFilterListsKey env)
                            (ReasonContext reason) conn)
           | NoMatch \<Rightarrow> Inr (False, conn)
           | Permitted \<Rightarrow> Inr (False, conn)))"

text \<open>
  \<open>checkResolverScope\<close>: the two horizon cases read the entity only after the resolver's
  scope has matched, as the short-circuit conjunctions of the source do.
\<close>

definition lanResolverCase :: "Env \<Rightarrow> Connection \<Rightarrow> ResolverInfo \<Rightarrow> panic + (bool \<times> Connection)" where
  "lanResolverCase env conn r =
     (if IsLAN (ResolverIPScope r) then
        (case ConnEntity conn of
           None \<Rightarrow> Inl NilPointerDereference
         | Some e \<Rightarrow>
             if IsLocalhost (IPScope e)
             then Inr (True, Block ''DNS server horizon violation: LAN DNS server returned localhost IP address''
                               (CfgOptionRemoveOutOfScopeDNSKey env) conn)
             else Inr (False, conn))
      else Inr (False, conn))"

definition checkResolverScope :: deciderFn where
  "checkResolverScope env conn p pkt =
     (if ConnType conn \<noteq> IPConnection then Inr (False, conn)
      else if \<not> RemoveOutOfScopeDNS p then Inr (False, conn)
      else case Resolver conn of
             None \<Rightarrow> Inr (False, conn)
           | Some r \<Rightarrow>
               if IsGlobal (ResolverIPScope r) then
                 (case ConnEntity conn of
                    None \<Rightarrow> Inl NilPointerDereference
                  | Some e \<Rightarrow>
                      if IsLAN (IPScope e) \<or> IsLocalhost (IPScope e)
                      then Inr (True, Block ''DNS server horizon violation: global DNS server returned local IP address''
                                        (CfgOptionRemoveOutOfScopeDNSKey env) conn)
                      else lanResolverCase env conn r)
               else lanResolverCase env conn r)"

text \<open>
  \<open>checkDomainHeuristics\<close>: the slice \<open>trimmedDomain[0:len(etld1)]\<close> panics when the
  eTLD+1 handed back is longer than the trimmed domain. \<open>strings.Split\<close> never returns
  an empty slice, so its element 0 is there.
\<close>

definition checkDomainHeuristics :: deciderFn where
  "checkDomainHeuristics env conn p pkt =
     (if \<not> DomainHeuristics p then Inr (False, conn)
      else case ConnEntity conn of
             None \<Rightarrow> Inl NilPointerDereference
           | Some e \<Rightarrow>
               if Domain e = [] then Inr (False, conn)
               else
                 (let trimmedDomain = strings_TrimRight (Domain e) ''.'' in
                  case EffectiveTLDPlusOne env trimmedDomain of
                    Inl err \<Rightarrow> Inr (False, conn)
                  | Inr etld1 \<Rightarrow>
                      (let domainToCheck = hd (strings_Split etld1 CHR ''.'');
                           score = LmsScore env domainToCheck
                       in if score < 5
                          then Inr (True, Block ''possible DGA domain commonly used by malware''
                                            (CfgOptionDomainHeuristicsKey env) conn)
                          else if length (Domain e) > length etld1 + 100 then
                            (if length etld1 > length trimmedDomain then Inl SliceBoundsOutOfRange
                             else
                               (let domainToCheck = take (length etld1) trimmedDomain;
                                    score = LmsScoreOfDomain env domainToCheck
                                in if score < 10
                                   then Inr (True, Block ''possible data tunnel for covert communication and protection bypassing''
                                                     (CfgOptionDomainHeuristicsKey env) conn)
                                   else Inr (False, conn)))
                          else Inr (False, conn))))"

definition dropInbound :: deciderFn where
  "dropInbound env conn p pkt =
     (if Inbound conn
      then Inr (True, Drop ''incoming connection blocked by default''
                        (CfgOptionServiceEndpointsKey env) conn)
      else Inr (False, conn))"

text \<open>
  The match loop of \<open>checkRelation\<close>: for each domain element in turn, the path elements,
  then the process name, then the name of the executable; the first pair that scores
  above 0.5 ends the loop. The result is the pair (domain element, process element).
\<close>

fun matchLoop :: "Env \<Rightarrow> string list \<Rightarrow> Process \<Rightarrow> string list \<Rightarrow> (string \<times> string) option" where
  "matchLoop env pathElements proc [] = None"
| "matchLoop env pathElements proc (domainElement # rest) =
     (case find (\<lambda>pathElement. levenshtein_Match env domainElement pathElement > 0.5) pathElements of
        Some pathElement \<Rightarrow> Some (domainElement, pathElement)
      | None \<Rightarrow>
          if levenshtein_Match env domainElement (Name proc) > 0.5
          then Some (domainElement, Name proc)
          else if levenshtein_Match env domainElement (ExecName proc) > 0.5
          then Some (domainElement, ExecName proc)
          else matchLoop env pathElements proc rest)"

definition checkRelation :: "Env \<Rightarrow> Connection \<Rightarrow> panic + (bool \<times> string)" where
  "checkRelation env conn =
     (case ConnEntity conn of
        None \<Rightarrow> Inl NilPointerDereference
      | Some e \<Rightarrow>
          if Domain e \<noteq> [] then Inr (False, [])
          else if Pid (ConnProcess conn) < 0 then Inr (False, [])
          else
            (let pathElements0 = strings_Split (Path (ConnProcess conn)) filepath_Separator;
                 pathElements =
                   (if length pathElements0 > 2
                    then drop (length pathElements0 - 2) pathElements0
                    else pathElements0);
                 domainElements = strings_Split (Domain e) CHR ''.''
             in case matchLoop env pathElements (ConnProcess conn) domainElements of
                  Some (domainElement, processElement) \<Rightarrow>
                    Inr (True, ''auto allowed: domain is related to process: '' @ domainElement
                                 @ '' is related to '' @ processElement)
                | None \<Rightarrow> Inr (False, [])))"

definition checkAutoPermitRelated :: deciderFn where
  "checkAutoPermitRelated env conn p pkt =
     (if DefaultActionOf p = DefaultActionPermit then Inr (False, conn)
      else if DisableAutoPermit p then Inr (False, conn)
      else case checkRelation env conn of
             Inl e \<Rightarrow> Inl e
           | Inr (related, reason) \<Rightarrow>
               if related
               then Inr (True, Accept reason (CfgOptionDisableAutoPermitKey env) conn)
               else Inr (False, conn))"

section \<open>The pipeline\<close>

definition defaultDeciders :: "deciderFn list" where
  "defaultDeciders =
     [checkPortmasterConnection, checkSelfCommunication, checkConnectionType,
      checkConnectionScope, checkEndpointLists, checkResolverScope, checkConnectivityDomain,
      checkBypassPrevention, checkFilterLists, dropInbound, checkDomainHeuristics,
      checkAutoPermitRelated]"

definition dnsFromSystemResolverDeciders :: "deciderFn list" where
  "dnsFromSystemResolverDeciders = [checkConnectivityDomain, checkBypassPrevention]"

text \<open>
  \<open>runDeciders\<close>: the first decider that concludes ends the loop with
  \<open>DefaultActionNotSet\<close>; otherwise the profile's default action is returned.
\<close>

fun runDeciders ::
  "Env \<Rightarrow> deciderFn list \<Rightarrow> Connection \<Rightarrow> LayeredProfile \<Rightarrow> Packet option
     \<Rightarrow> panic + (bool \<times> DefaultAction \<times> Connection)" where
  "runDeciders env [] conn layeredProfile pkt = Inr (False, DefaultActionOf layeredProfile, conn)"
| "runDeciders env (decider # rest) conn layeredProfile pkt =
     (case decider env conn layeredProfile pkt of
        Inl e \<Rightarrow> Inl e
      | Inr (done, conn') \<Rightarrow>
          if done then Inr (True, DefaultActionNotSet, conn')
          else runDeciders env rest conn' layeredProfile pkt)"

text \<open>
  The first part of \<open>DecideOnConnection\<close>, for a profile that is there: the profile is
  updated when it needs to be, and the connection's revision counter follows it. The
  result is the profile in force and the connection, whose process points to it.
\<close>

definition checkProfileRevision ::
  "Env \<Rightarrow> LayeredProfile \<Rightarrow> Connection \<Rightarrow> LayeredProfile \<times> Connection" where
  "checkProfileRevision env layeredProfile conn =
     (if NeedsUpdate layeredProfile then
        (case Update env layeredProfile of
           (lp', revCnt) \<Rightarrow>
             (let conn1 = conn\<lparr>ConnProcess := (ConnProcess conn)\<lparr>Profile := Some lp'\<rparr>\<rparr>;
                  conn2 = SaveWhenFinished (conn1\<lparr>ProfileRevisionCounter := revCnt\<rparr>);
                  conn3 = conn2\<lparr>Verdict := VerdictUndecided\<rparr>;
                  conn4 = (case ConnEntity conn3 of
                             None \<Rightarrow> conn3
                           | Some e \<Rightarrow> conn3\<lparr>ConnEntity := Some (ResetLists e)\<rparr>)
              in (lp', conn4)))
      else
        (let revCnt = RevisionCnt layeredProfile in
         if ProfileRevisionCounter conn \<noteq> revCnt
         then (layeredProfile, SaveWhenFinished (conn\<lparr>ProfileRevisionCounter := revCnt\<rparr>))
         else (layeredProfile, conn)))"

text \<open>Modelled from the spec: \<open>prompt\<close> (its file is missing) asks the user; the answer
  reaches the connection through a verdict setter.\<close>

definition prompt :: "Env \<Rightarrow> Connection \<Rightarrow> Packet option \<Rightarrow> Connection" where
  "prompt env conn pkt =
     (case promptAnswer env conn pkt of (v, reason, key) \<Rightarrow> SetVerdict v reason key [] conn)"

text \<open>The last part of \<open>DecideOnConnection\<close>: the default action, when no decider
  concluded.\<close>

definition applyDefaultAction :: "Env \<Rightarrow> DefaultAction \<Rightarrow> Connection \<Rightarrow> Packet option \<Rightarrow> Connection" where
  "applyDefaultAction env defaultAction conn pkt =
     (case defaultAction of
        DefaultActionPermit \<Rightarrow>
          Accept ''allowed by default action'' (CfgOptionDefaultActionKey env) conn
      | DefaultActionAsk \<Rightarrow> prompt env conn pkt
      | DefaultActionBlock \<Rightarrow>
          Deny ''blocked by default action'' (CfgOptionDefaultActionKey env) conn
      | DefaultActionNotSet \<Rightarrow>
          Deny ''blocked by default action'' (CfgOptionDefaultActionKey env) conn)"

definition DecideOnConnection :: "Env \<Rightarrow> Connection \<Rightarrow> Packet option \<Rightarrow> panic + Connection" where
  "DecideOnConnection env conn pkt =
     (case Profile (ConnProcess conn) of
        None \<Rightarrow> Inr (Deny ''unknown process or profile'' noReasonOptionKey conn)
      | Some layeredProfile0 \<Rightarrow>
          (case checkProfileRevision env layeredProfile0 conn of
             (layeredProfile, conn1) \<Rightarrow>
               if ConnType conn1 = DNSRequest \<and> IsSystemResolver (ConnProcess conn1) then
                 (case runDeciders env dnsFromSystemResolverDeciders conn1 layeredProfile pkt of
                    Inl e \<Rightarrow> Inl e
                  | Inr (done, defaultAction, conn2) \<Rightarrow>
                      if \<not> done
                      then Inr (Accept ''allowing system resolver dns request'' noReasonOptionKey conn2)
                      else Inr conn2)
               else
                 (case runDeciders env defaultDeciders conn1 layeredProfile pkt of
                    Inl e \<Rightarrow> Inl e
                  | Inr (done, defaultAction, conn2) \<Rightarrow>
                      if done then Inr conn2
                      else Inr (applyDefaultAction env defaultAction conn2 pkt))))"

section \<open>The filterlists module\<close>

text \<open>
  The package-level state of package \<open>filterlists\<close>: the two ignore flags, the module
  registration, the hooks that \<open>prep\<close> registers, the channel \<open>filterListsLoaded\<close> and the
  warnings raised on the module. Channels live in a store: address \<open>i\<close> is the \<open>i\<close>-th
  channel made, and the store holds whether it has been closed. An address outside of
  the store is the nil channel.
\<close>

record Filterlists =
  ignoreUpdateEvents :: bool
  ignoreNetEnvEvents :: bool
  moduleRegistered :: bool
  resourceUpdateHook :: bool
  onlineStatusChangedHook :: bool
  chans :: "bool list"
  filterListsLoaded :: nat
  warnings :: "(string \<times> string \<times> string) list"

definition filterlistsDisabled :: string where
  "filterlistsDisabled = ''filterlists:disabled''"

text \<open>\<open>make(chan struct{})\<close> and \<open>close(ch)\<close>.\<close>

definition make_chan :: "Filterlists \<Rightarrow> nat \<times> Filterlists" where
  "make_chan s = (length (chans s), s\<lparr>chans := chans s @ [False]\<rparr>)"

definition close_chan :: "nat \<Rightarrow> Filterlists \<Rightarrow> panic + Filterlists" where
  "close_chan ch s =
     (if ch \<ge> length (chans s) then Inl CloseOfNilChannel
      else if chans s ! ch then Inl CloseOfClosedChannel
      else Inr (s\<lparr>chans := (chans s)[ch := True]\<rparr>))"

text \<open>Whether the channel that \<open>filterListsLoaded\<close> holds has been closed, which is how
  the module signals that the lists are loaded.\<close>

definition isLoaded :: "Filterlists \<Rightarrow> bool" where
  "isLoaded s = (filterListsLoaded s < length (chans s) \<and> chans s ! filterListsLoaded s)"

text \<open>The package variables before \<open>init\<close>: both flags are new, the channel is made.\<close>

definition initialFilterlists :: Filterlists where
  "initialFilterlists =
     \<lparr>ignoreUpdateEvents = False, ignoreNetEnvEvents = False, moduleRegistered = False,
      resourceUpdateHook = False, onlineStatusChangedHook = False, chans = [False],
      filterListsLoaded = 0, warnings = []\<rparr>"

definition init_filterlists :: "Filterlists \<Rightarrow> Filterlists" where
  "init_filterlists s = (s\<lparr>ignoreNetEnvEvents := True\<rparr>)\<lparr>moduleRegistered := True\<rparr>"

text \<open>
  The two event handlers that \<open>prep\<close> registers. \<open>tryListUpdate\<close> is a function of the
  package whose file is missing: it is a parameter, and so is what \<open>netenv.Online()\<close>
  returns when the handler runs.
\<close>

type_synonym listUpdate = "Filterlists \<Rightarrow> string option \<times> Filterlists"

definition resourceUpdateHandler :: "listUpdate \<Rightarrow> Filterlists \<Rightarrow> string option \<times> Filterlists" where
  "resourceUpdateHandler tryListUpdate s =
     (if ignoreUpdateEvents s then (None, s) else tryListUpdate s)"

definition onlineStatusChangedHandler ::
  "listUpdate \<Rightarrow> bool \<Rightarrow> Filterlists \<Rightarrow> string option \<times> Filterlists" where
  "onlineStatusChangedHandler tryListUpdate online s =
     (if ignoreNetEnvEvents s then (None, s)
      else if \<not> online then (None, s)
      else tryListUpdate s)"

text \<open>\<open>prep\<close>: \<open>RegisterEventHook\<close> may refuse either hook; its two answers are
  parameters.\<close>

definition prep :: "string option \<Rightarrow> string option \<Rightarrow> Filterlists \<Rightarrow> string option \<times> Filterlists" where
  "prep reg1 reg2 s =
     (case reg1 of
        Some err \<Rightarrow> (Some (''failed to register resource update event handler: '' @ err), s)
      | None \<Rightarrow>
          (let s1 = s\<lparr>resourceUpdateHook := True\<rparr> in
           case reg2 of
             Some err \<Rightarrow>
               (Some (''failed to register online status changed event handler: '' @ err), s1)
           | None \<Rightarrow> (None, s1\<lparr>onlineStatusChangedHook := True\<rparr>)))"

definition warnAboutDisabledFilterLists :: "Filterlists \<Rightarrow> Filterlists" where
  "warnAboutDisabledFilterLists s =
     s\<lparr>warnings := warnings s @
        [(filterlistsDisabled, ''Filter Lists Are Initializing'',
          ''Filter lists are being downloaded and set up in the background. Until this initialization is finished, the filter lists are disabled and will not block anything.'')]\<rparr>"

text \<open>
  \<open>start\<close>: the results of \<open>getCacheDatabaseVersion\<close> and of
  \<open>defaultFilter.loadFromCache\<close> (both in missing files) are parameters; the cache is
  only loaded when the version was read. \<open>start\<close> always returns nil, unless closing the
  channel panics.
\<close>

definition start :: "string + string \<Rightarrow> string option \<Rightarrow> Filterlists \<Rightarrow> panic + Filterlists" where
  "start getCacheDatabaseVersion loadFromCache s =
     (let err =
            (case getCacheDatabaseVersion of
               Inl e \<Rightarrow> Some e
             | Inr ver \<Rightarrow>
                 (case loadFromCache of
                    Some e \<Rightarrow> Some (''failed to initialize bloom filters: '' @ e)
                  | None \<Rightarrow> None))
      in case err of
           Some e \<Rightarrow> Inr (warnAboutDisabledFilterLists s)
         | None \<Rightarrow> close_chan (filterListsLoaded s) s)"

definition stop :: "Filterlists \<Rightarrow> Filterlists" where
  "stop s = (case make_chan s of (ch, s') \<Rightarrow> s'\<lparr>filterListsLoaded := ch\<rparr>)"

text \<open>
  The life of the module after \<open>init\<close>: \<open>prep\<close>, \<open>start\<close> and \<open>stop\<close> calls and the two
  kinds of events, in any order. An event reaches its handler once \<open>prep\<close> has
  registered it. A panic ends the run.
\<close>

datatype ModuleStep =
  StepPrep "string option" "string option"
  | StepStart "string + string" "string option"
  | StepStop
  | ResourceUpdateEvent
  | OnlineStatusChangedEvent bool

definition moduleStep :: "listUpdate \<Rightarrow> ModuleStep \<Rightarrow> Filterlists \<Rightarrow> panic + Filterlists" where
  "moduleStep tryListUpdate st s =
     (case st of
        StepPrep reg1 reg2 \<Rightarrow> Inr (snd (prep reg1 reg2 s))
      | StepStart ver load \<Rightarrow> start ver load s
      | StepStop \<Rightarrow> Inr (stop s)
      | ResourceUpdateEvent \<Rightarrow>
          if resourceUpdateHook s then Inr (snd (resourceUpdateHandler tryListUpdate s))
          else Inr s
      | OnlineStatusChangedEvent online \<Rightarrow>
          if onlineStatusChangedHook s
          then Inr (snd (onlineStatusChangedHandler tryListUpdate online s))
          else Inr s)"

fun moduleRun :: "listUpdate \<Rightarrow> ModuleStep list \<Rightarrow> Filterlists \<Rightarrow> panic + Filterlists" where
  "moduleRun tryListUpdate [] s = Inr s"
| "moduleRun tryListUpdate (st # sts) s =
     (case moduleStep tryListUpdate st s of
        Inl e \<Rightarrow> Inl e
      | Inr s' \<Rightarrow> moduleRun tryListUpdate sts s')"

definition isOnlineStatusChanged :: "ModuleStep \<Rightarrow> bool" where
  "isOnlineStatusChanged st = (case st of OnlineStatusChangedEvent online \<Rightarrow> True | _ \<Rightarrow> False)"

section \<open>Predicates of the statements\<close>

text \<open>A decider passes when it returns without a verdict and without a panic.\<close>

definition passes :: "deciderFn \<Rightarrow> Env \<Rightarrow> Connection \<Rightarrow> LayeredProfile \<Rightarrow> Packet option \<Rightarrow> bool" where
  "passes decider env conn lp pkt = (decider env conn lp pkt = Inr (False, conn))"

text \<open>
  Two connections carry the same inputs when they agree on everything the pipeline
  reads: type, direction, entity, process (with its profile), resolver and revision
  counter. Verdict, reason, the internal flag and the dirty mark are its outputs.
\<close>

definition sameInputs :: "Connection \<Rightarrow> Connection \<Rightarrow> bool" where
  "sameInputs c c' =
     (ConnType c = ConnType c' \<and> Inbound c = Inbound c' \<and> ConnEntity c = ConnEntity c'
      \<and> ConnProcess c = ConnProcess c' \<and> Resolver c = Resolver c'
      \<and> ProfileRevisionCounter c = ProfileRevisionCounter c')"

section \<open>Concrete inputs\<close>

definition noReason :: Reason where
  "noReason = \<lparr>ReasonString = [], ReasonContext = []\<rparr>"

text \<open>A profile that blocks nothing, matches nothing and has the default action Block.\<close>

definition plainProfile :: LayeredProfile where
  "plainProfile =
     \<lparr>BlockInbound = False, BlockP2P = False, BlockScopeInternet = False,
      BlockScopeLAN = False, BlockScopeLocal = False, PreventBypassingOpt = False,
      DomainHeuristics = False, DisableAutoPermit = False, RemoveOutOfScopeDNS = False,
      MatchEndpoint = (\<lambda>e. (NoMatch, noReason)),
      MatchServiceEndpoint = (\<lambda>e. (NoMatch, noReason)),
      MatchFilterLists = (\<lambda>e. (NoMatch, noReason)),
      DefaultActionOf = DefaultActionBlock, RevisionCnt = 7, NeedsUpdate = False\<rparr>"

text \<open>
  An environment: Portmaster runs as PID 1000, the host is online, no lookup succeeds,
  the bypass module reports only the Firefox canary domain, every label scores well, and
  recomposing a profile bumps its counter.
\<close>

definition plainEnv :: Env where
  "plainEnv =
     \<lparr>ownPID = 1000,
      state_Lookup = (\<lambda>info pidOnly. Inl ''socket not found''),
      GetOrFindProcess = (\<lambda>pid. Inl ''process not found''),
      GetOnlineStatus = 5, StatusPortal = 3,
      IsConnectivityDomain = (\<lambda>d. False),
      PreventBypassing =
        (\<lambda>c. case ConnEntity c of
                None \<Rightarrow> (NoMatch, [], [])
              | Some e \<Rightarrow>
                  if Domain e = ''use-application-dns.net.''
                  then (Denied, ''blocked canary domain'', [])
                  else (NoMatch, [], [])),
      EffectiveTLDPlusOne = (\<lambda>d. Inl ''publicsuffix: cannot derive eTLD+1''),
      LmsScore = (\<lambda>s. 100),
      LmsScoreOfDomain = (\<lambda>s. 100),
      levenshtein_Match = (\<lambda>a b. if a = b then 1 else 0),
      promptAnswer = (\<lambda>c p. (VerdictDeny, ''no response to prompt'', ''default-action'')),
      recompose = (\<lambda>lp. lp\<lparr>RevisionCnt := RevisionCnt lp + 1, NeedsUpdate := False\<rparr>),
      CfgOptionDefaultActionKey = ''default-action'',
      CfgOptionServiceEndpointsKey = ''service-endpoints'',
      CfgOptionEndpointsKey = ''endpoints'',
      CfgOptionBlockInboundKey = ''block-inbound'',
      CfgOptionBlockP2PKey = ''block-p2p'',
      CfgOptionBlockScopeInternetKey = ''block-scope-internet'',
      CfgOptionBlockScopeLANKey = ''block-scope-lan'',
      CfgOptionBlockScopeLocalKey = ''block-scope-local'',
      CfgOptionPreventBypassingKey = ''prevent-bypassing'',
      CfgOptionFilterListsKey = ''filter-lists'',
      CfgOptionRemoveOutOfScopeDNSKey = ''remove-out-of-scope-dns'',
      CfgOptionDomainHeuristicsKey = ''domain-heuristics'',
      CfgOptionDisableAutoPermitKey = ''disable-auto-permit''\<rparr>"

definition chromeProcess :: Process where
  "chromeProcess =
     \<lparr>Pid = 4242, Path = ''/opt/google/chrome/google-chrome'', Name = ''Google Chrome'',
      ExecName = ''google-chrome'', IsSystemResolver = False, Profile = Some plainProfile\<rparr>"

text \<open>An outbound IP connection of that process to an entity, undecided so far.\<close>

definition outboundConn :: "Process \<Rightarrow> Entity \<Rightarrow> Connection" where
  "outboundConn proc e =
     \<lparr>ConnType = IPConnection, Inbound = False, ConnEntity = Some e, ConnProcess = proc,
      Resolver = None, Verdict = VerdictUndecided, ReasonMsg = [], ReasonOptionKey = [],
      ReasonCtx = [], Internal = False, ProfileRevisionCounter = 7,
      saveWhenFinished = False\<rparr>"

definition mailGoogle :: Entity where
  "mailGoogle = \<lparr>Domain = ''mail.google.com'', IPScope = Global, Lists = []\<rparr>"

definition chromeConn :: Connection where
  "chromeConn = outboundConn chromeProcess mailGoogle"

section \<open>Predicates of the proofs\<close>

text \<open>The only fields in which \<open>c'\<close> differs from \<open>c\<close> are the verdict, the reason and the internal flag.\<close>

definition onlyVerdictChanged :: "Connection \<Rightarrow> Connection \<Rightarrow> bool" where
  "onlyVerdictChanged c c' =
     (c' = c\<lparr>Verdict := Verdict c', ReasonMsg := ReasonMsg c', ReasonOptionKey := ReasonOptionKey c',
            ReasonCtx := ReasonCtx c', Internal := Internal c'\<rparr>)"

text \<open>A decider is well behaved when a conclusion changes nothing but the verdict fields, and no conclusion changes nothing at all.\<close>

definition wellBehaved :: "deciderFn \<Rightarrow> bool" where
  "wellBehaved d = (\<forall>env conn lp pkt b c'. d env conn lp pkt = Inr (b, c') \<longrightarrow>
      (if b then onlyVerdictChanged conn c' else c' = conn))"

text \<open>What a caller sees of a decider's result: the panic, or the verdict and reason it set, if any.\<close>

definition outcome :: "panic + (bool \<times> Connection) \<Rightarrow> panic + (Verdict \<times> string) option" where
  "outcome r =
     (case r of
        Inl e \<Rightarrow> Inl e
      | Inr (b, c) \<Rightarrow> Inr (if b then Some (Verdict c, ReasonMsg c) else None))"

definition runOutcome ::
  "panic + (bool \<times> DefaultAction \<times> Connection) \<Rightarrow> panic + (DefaultAction \<times> (Verdict \<times> string) option)" where
  "runOutcome r =
     (case r of
        Inl e \<Rightarrow> Inl e
      | Inr (b, da, c) \<Rightarrow> Inr (da, if b then Some (Verdict c, ReasonMsg c) else None))"

text \<open>A decider is determined by the inputs when connections with the same inputs get the same outcome.\<close>

definition inputDetermined :: "Env \<Rightarrow> deciderFn \<Rightarrow> bool" where
  "inputDetermined env d =
     (\<forall>c c' lp pkt. sameInputs c c' \<longrightarrow> outcome (d env c lp pkt) = outcome (d env c' lp pkt))"

text \<open>The public-suffix lookup never hands back more than it was given, as an eTLD+1, a suffix of the domain, cannot.\<close>

definition suffixLike :: "Env \<Rightarrow> bool" where
  "suffixLike env =
     (\<forall>d. case EffectiveTLDPlusOne env d of Inl err \<Rightarrow> True | Inr etld1 \<Rightarrow> length etld1 \<le> length d)"

text \<open>A decider returns on every connection that has an entity.\<close>

definition returns :: "Env \<Rightarrow> deciderFn \<Rightarrow> bool" where
  "returns env d =
     (\<forall>conn lp pkt. ConnEntity conn \<noteq> None \<longrightarrow> (\<exists>b c. d env conn lp pkt = Inr (b, c)))"

section \<open>More concrete inputs\<close>

definition portmasterProcess :: Process where
  "portmasterProcess =
     \<lparr>Pid = 1000, Path = ''/opt/safing/portmaster/portmaster-core'', Name = ''Portmaster'',
      ExecName = ''portmaster-core'', IsSystemResolver = False, Profile = Some plainProfile\<rparr>"

definition resolverProcess :: Process where
  "resolverProcess =
     \<lparr>Pid = 612, Path = ''/lib/systemd/systemd-resolved'', Name = ''systemd-resolved'',
      ExecName = ''systemd-resolved'', IsSystemResolver = True, Profile = Some plainProfile\<rparr>"

definition invalidEntity :: Entity where
  "invalidEntity = \<lparr>Domain = [], IPScope = Invalid, Lists = []\<rparr>"

definition routerEntity :: Entity where
  "routerEntity = \<lparr>Domain = ''router.example.com.'', IPScope = SiteLocal, Lists = []\<rparr>"

definition globalResolver :: ResolverInfo where
  "globalResolver = \<lparr>ResolverIPScope = Global\<rparr>"

definition permitReason :: Reason where
  "permitReason = \<lparr>ReasonString = ''permitted by rule: + 192.168.0.0/16'', ReasonContext = []\<rparr>"

definition horizonProfile :: LayeredProfile where
  "horizonProfile = plainProfile\<lparr>RemoveOutOfScopeDNS := True\<rparr>"

definition permitLanProfile :: LayeredProfile where
  "permitLanProfile = horizonProfile\<lparr>MatchEndpoint := (\<lambda>e. (Permitted, permitReason))\<rparr>"

definition withProfile :: "LayeredProfile \<Rightarrow> Process \<Rightarrow> Process" where
  "withProfile lp proc = proc\<lparr>Profile := Some lp\<rparr>"

definition ownConn :: Connection where
  "ownConn = outboundConn portmasterProcess invalidEntity"

definition invalidConn :: Connection where
  "invalidConn = outboundConn chromeProcess invalidEntity"

definition routerConn :: "LayeredProfile \<Rightarrow> Connection" where
  "routerConn lp =
     (outboundConn (withProfile lp chromeProcess) routerEntity)\<lparr>Resolver := Some globalResolver\<rparr>"

definition dnsConn :: Connection where
  "dnsConn = (outboundConn resolverProcess mailGoogle)\<lparr>ConnType := DNSRequest\<rparr>"

definition staleConn :: Connection where
  "staleConn = chromeConn\<lparr>ProfileRevisionCounter := 3\<rparr>"

definition outdatedConn :: Connection where
  "outdatedConn =
     outboundConn (withProfile (plainProfile\<lparr>NeedsUpdate := True\<rparr>) chromeProcess) mailGoogle"

definition orphanConn :: Connection where
  "orphanConn = outboundConn (chromeProcess\<lparr>Profile := None\<rparr>) mailGoogle"

text \<open>A domain of 132 bytes: a label of 120 bytes in front of \<open>example.com\<close>. In \<open>tunnelEnv\<close> its eTLD+1 is \<open>example.com\<close>, and only short strings score well.\<close>

definition tunnelEntity :: Entity where
  "tunnelEntity =
     \<lparr>Domain = ''aaaaaaaaaaaaaaaaaaaaaaaaaaaaaaaaaaaaaaaaaaaaaaaaaaaaaaaaaaaaaaaaaaaaaaaaaaaaaaaaaaaaaaaaaaaaaaaaaaaaaaaaaaaaaaaaaaaaaaaa.example.com'',
      IPScope = Global, Lists = []\<rparr>"

definition tunnelEnv :: Env where
  "tunnelEnv =
     plainEnv\<lparr>EffectiveTLDPlusOne := (\<lambda>d. Inr ''example.com''),
              LmsScoreOfDomain := (\<lambda>s. if length s \<le> 11 then 50 else 0)\<rparr>"

definition tunnelConn :: Connection where
  "tunnelConn =
     outboundConn (withProfile (plainProfile\<lparr>DomainHeuristics := True\<rparr>) chromeProcess) tunnelEntity"

text \<open>A list update that succeeds and closes the channel.\<close>

definition closingUpdate :: listUpdate where
  "closingUpdate s = (None, s\<lparr>chans := (chans s)[filterListsLoaded s := True]\<rparr>)"

section \<open>The filterlists module: start and stop\<close>

lemma start_already_loaded:
  "isLoaded s \<Longrightarrow> start (Inr ver) None s = Inl CloseOfClosedChannel"
  by (simp add: start_def close_chan_def isLoaded_def)




section \<open>The filterlists module: events\<close>

lemma step_keeps_flag:
  assumes f: "\<forall>s. ignoreNetEnvEvents s \<longrightarrow> ignoreNetEnvEvents (snd (tryListUpdate s))"
    and s: "ignoreNetEnvEvents s" and st: "moduleStep tryListUpdate st s = Inr s'"
  shows "ignoreNetEnvEvents s'"
proof (cases st)
  case (StepPrep r1 r2)
  with s st show ?thesis by (auto simp: moduleStep_def prep_def Let_def split: option.splits)
next
  case (StepStart v l)
  with s st show ?thesis
    by (auto simp: moduleStep_def start_def close_chan_def warnAboutDisabledFilterLists_def
        split: option.splits sum.splits if_splits)
next
  case StepStop
  with s st show ?thesis by (auto simp: moduleStep_def stop_def make_chan_def)
next
  case ResourceUpdateEvent
  with s st f show ?thesis
    by (auto simp: moduleStep_def resourceUpdateHandler_def split: if_splits)
next
  case (OnlineStatusChangedEvent online)
  with s st show ?thesis
    by (auto simp: moduleStep_def onlineStatusChangedHandler_def split: if_splits)
qed

lemma online_step_noop:
  "ignoreNetEnvEvents s \<Longrightarrow> moduleStep tryListUpdate (OnlineStatusChangedEvent online) s = Inr s"
  by (simp add: moduleStep_def onlineStatusChangedHandler_def)

lemma run_without_online_events:
  assumes f: "\<forall>s. ignoreNetEnvEvents s \<longrightarrow> ignoreNetEnvEvents (snd (tryListUpdate s))"
  shows "ignoreNetEnvEvents s \<Longrightarrow>
         moduleRun tryListUpdate sts s
           = moduleRun tryListUpdate (filter (\<lambda>st. \<not> isOnlineStatusChanged st) sts) s"
proof (induction sts arbitrary: s)
  case Nil
  then show ?case by simp
next
  case (Cons st sts)
  show ?case
  proof (cases "isOnlineStatusChanged st")
    case True
    then obtain online where "st = OnlineStatusChangedEvent online"
      by (cases st) (auto simp: isOnlineStatusChanged_def)
    with Cons True show ?thesis by (simp add: online_step_noop)
  next
    case False
    show ?thesis
    proof (cases "moduleStep tryListUpdate st s")
      case (Inl e)
      with False show ?thesis by simp
    next
      case (Inr s')
      with f Cons.prems have "ignoreNetEnvEvents s'" by (rule step_keeps_flag)
      with Cons.IH have "moduleRun tryListUpdate sts s'
           = moduleRun tryListUpdate (filter (\<lambda>st. \<not> isOnlineStatusChanged st) sts) s'" .
      with Inr False show ?thesis by simp
    qed
  qed
qed

lemma run_keeps_flag:
  assumes f: "\<forall>s. ignoreNetEnvEvents s \<longrightarrow> ignoreNetEnvEvents (snd (tryListUpdate s))"
  shows "ignoreNetEnvEvents s \<Longrightarrow> moduleRun tryListUpdate sts s = Inr s' \<Longrightarrow> ignoreNetEnvEvents s'"
proof (induction sts arbitrary: s)
  case Nil
  then show ?case by simp
next
  case (Cons st sts)
  from Cons.prems(2) obtain s1 where s1: "moduleStep tryListUpdate st s = Inr s1"
    and r: "moduleRun tryListUpdate sts s1 = Inr s'"
    by (auto split: sum.splits)
  from f Cons.prems(1) s1 have "ignoreNetEnvEvents s1" by (rule step_keeps_flag)
  then show ?case using r by (rule Cons.IH)
qed

text \<open>C10. \<open>init\<close> sets \<open>ignoreNetEnvEvents\<close>. While the flag is set, the handler of the
  online-status-changed event returns nil and leaves the state alone, whatever
  \<open>tryListUpdate\<close> would do: it is not called. No function of the file clears the flag:
  when \<open>tryListUpdate\<close> does not clear it either, every run of the module from \<open>init\<close>
  on ends with the flag set, and is the run without its online-status-changed events.
  The handler of the resource-update event does call \<open>tryListUpdate\<close> after \<open>init\<close>.\<close>

theorem C10_netenv_events_ignored:
  "ignoreNetEnvEvents (init_filterlists s0)
   \<and> (ignoreNetEnvEvents s \<longrightarrow> onlineStatusChangedHandler tryListUpdate online s = (None, s))
   \<and> ((\<forall>s. ignoreNetEnvEvents s \<longrightarrow> ignoreNetEnvEvents (snd (tryListUpdate s))) \<longrightarrow>
        moduleRun tryListUpdate sts (init_filterlists s0)
          = moduleRun tryListUpdate (filter (\<lambda>st. \<not> isOnlineStatusChanged st) sts) (init_filterlists s0)
        \<and> (\<forall>s'. moduleRun tryListUpdate sts (init_filterlists s0) = Inr s' \<longrightarrow> ignoreNetEnvEvents s'))
   \<and> resourceUpdateHandler tryListUpdate (init_filterlists initialFilterlists)
        = tryListUpdate (init_filterlists initialFilterlists)"
proof (intro conjI impI allI)
  show i: "ignoreNetEnvEvents (init_filterlists s0)" by (simp add: init_filterlists_def)
  {
    assume f: "\<forall>s. ignoreNetEnvEvents s \<longrightarrow> ignoreNetEnvEvents (snd (tryListUpdate s))"
    from f i show "moduleRun tryListUpdate sts (init_filterlists s0)
          = moduleRun tryListUpdate (filter (\<lambda>st. \<not> isOnlineStatusChanged st) sts) (init_filterlists s0)"
      by (rule run_without_online_events)
    fix s' assume "moduleRun tryListUpdate sts (init_filterlists s0) = Inr s'"
    with f i show "ignoreNetEnvEvents s'" by (rule run_keeps_flag)
  }
qed (simp_all add: onlineStatusChangedHandler_def resourceUpdateHandler_def init_filterlists_def
      initialFilterlists_def)

theorem C10_netenv_events_ignored_witness:
  "ignoreNetEnvEvents (init_filterlists initialFilterlists)
   \<and> onlineStatusChangedHandler closingUpdate True (init_filterlists initialFilterlists)
       = (None, init_filterlists initialFilterlists)
   \<and> moduleRun closingUpdate [StepPrep None None, OnlineStatusChangedEvent True, ResourceUpdateEvent]
         (init_filterlists initialFilterlists)
       = moduleRun closingUpdate [StepPrep None None, ResourceUpdateEvent]
           (init_filterlists initialFilterlists)"
proof -
  have f: "\<forall>s. ignoreNetEnvEvents s \<longrightarrow> ignoreNetEnvEvents (snd (closingUpdate s))"
    by (simp add: closingUpdate_def)
  from C10_netenv_events_ignored
         [of initialFilterlists "init_filterlists initialFilterlists" closingUpdate True
            "[StepPrep None None, OnlineStatusChangedEvent True, ResourceUpdateEvent]"] f
  show ?thesis by (simp add: isOnlineStatusChanged_def)
qed

section \<open>What a decider may change\<close>

lemmas setter_defs = SetVerdict_def Accept_def Block_def Drop_def Deny_def AcceptWithContext_def
  BlockWithContext_def DenyWithContext_def

lemmas decider_defs = checkPortmasterConnection_def checkSelfCommunication_def
  checkConnectionType_def checkConnectionScope_def checkEndpointLists_def checkResolverScope_def
  lanResolverCase_def checkConnectivityDomain_def checkBypassPrevention_def checkFilterLists_def
  dropInbound_def checkDomainHeuristics_def checkAutoPermitRelated_def checkRelation_def

lemmas pipeline_defs = DecideOnConnection_def checkProfileRevision_def defaultDeciders_def
  dnsFromSystemResolverDeciders_def applyDefaultAction_def Update_def SaveWhenFinished_def
  ResetLists_def prompt_def noReasonOptionKey_def

lemmas concrete_defs = plainEnv_def plainProfile_def chromeProcess_def outboundConn_def
  mailGoogle_def chromeConn_def portmasterProcess_def resolverProcess_def invalidEntity_def
  routerEntity_def globalResolver_def permitReason_def horizonProfile_def permitLanProfile_def
  withProfile_def ownConn_def invalidConn_def routerConn_def dnsConn_def staleConn_def
  outdatedConn_def orphanConn_def noReason_def

lemma onlyVerdictChanged_refl: "onlyVerdictChanged c c"
  by (simp add: onlyVerdictChanged_def)

lemma onlyVerdictChanged_SetVerdict: "onlyVerdictChanged c (SetVerdict v r k x c)"
  by (simp add: onlyVerdictChanged_def SetVerdict_def)

lemma onlyVerdictChanged_Internal: "onlyVerdictChanged c c' \<Longrightarrow> onlyVerdictChanged c (c'\<lparr>Internal := i\<rparr>)"
  by (cases c, cases c') (simp add: onlyVerdictChanged_def)

lemma onlyVerdictChanged_trans:
  "onlyVerdictChanged a b \<Longrightarrow> onlyVerdictChanged b c \<Longrightarrow> onlyVerdictChanged a c"
  by (cases a, cases b, cases c) (simp add: onlyVerdictChanged_def)

lemma onlyVerdictChanged_fields:
  "onlyVerdictChanged c c' \<Longrightarrow>
     ConnType c' = ConnType c \<and> Inbound c' = Inbound c \<and> ConnEntity c' = ConnEntity c
     \<and> ConnProcess c' = ConnProcess c \<and> Resolver c' = Resolver c
     \<and> ProfileRevisionCounter c' = ProfileRevisionCounter c
     \<and> saveWhenFinished c' = saveWhenFinished c"
  by (cases c, cases c') (simp add: onlyVerdictChanged_def)

lemmas ovc_intros = onlyVerdictChanged_refl onlyVerdictChanged_SetVerdict onlyVerdictChanged_Internal

lemma wb_checkPortmasterConnection: "wellBehaved checkPortmasterConnection"
  by (auto simp: wellBehaved_def checkPortmasterConnection_def Accept_def intro: ovc_intros split: if_splits)

lemma wb_checkSelfCommunication: "wellBehaved checkSelfCommunication"
  by (auto simp: wellBehaved_def checkSelfCommunication_def Accept_def Let_def intro: ovc_intros
      split: if_splits option.splits sum.splits)

lemma wb_checkConnectionType: "wellBehaved checkConnectionType"
  by (auto simp: wellBehaved_def checkConnectionType_def Drop_def Block_def intro: ovc_intros
      split: if_splits option.splits)

lemma wb_checkConnectionScope: "wellBehaved checkConnectionScope"
  by (auto simp: wellBehaved_def checkConnectionScope_def Deny_def Block_def intro: ovc_intros
      split: if_splits option.splits IPScope.splits)

lemma wb_checkEndpointLists: "wellBehaved checkEndpointLists"
  by (auto simp: wellBehaved_def checkEndpointLists_def DenyWithContext_def AcceptWithContext_def
      intro: ovc_intros split: if_splits prod.splits EPResult.splits)

lemma wb_checkResolverScope: "wellBehaved checkResolverScope"
  by (auto simp: wellBehaved_def checkResolverScope_def lanResolverCase_def Block_def
      intro: ovc_intros split: if_splits option.splits)

lemma wb_checkConnectivityDomain: "wellBehaved checkConnectivityDomain"
  by (auto simp: wellBehaved_def checkConnectivityDomain_def Accept_def
      intro: ovc_intros split: if_splits option.splits)

lemma wb_checkBypassPrevention: "wellBehaved checkBypassPrevention"
  by (auto simp: wellBehaved_def checkBypassPrevention_def BlockWithContext_def AcceptWithContext_def
      intro: ovc_intros split: if_splits prod.splits EPResult.splits)

lemma wb_checkFilterLists: "wellBehaved checkFilterLists"
  by (auto simp: wellBehaved_def checkFilterLists_def DenyWithContext_def
      intro: ovc_intros split: if_splits prod.splits EPResult.splits)

lemma wb_dropInbound: "wellBehaved dropInbound"
  by (auto simp: wellBehaved_def dropInbound_def Drop_def intro: ovc_intros split: if_splits)

lemma wb_checkDomainHeuristics: "wellBehaved checkDomainHeuristics"
  by (auto simp: wellBehaved_def checkDomainHeuristics_def Block_def Let_def
      intro: ovc_intros split: if_splits option.splits sum.splits)

lemma wb_checkAutoPermitRelated: "wellBehaved checkAutoPermitRelated"
  by (auto simp: wellBehaved_def checkAutoPermitRelated_def Accept_def
      intro: ovc_intros split: if_splits sum.splits prod.splits)

lemmas wb_deciders = wb_checkPortmasterConnection wb_checkSelfCommunication wb_checkConnectionType
  wb_checkConnectionScope wb_checkEndpointLists wb_checkResolverScope wb_checkConnectivityDomain
  wb_checkBypassPrevention wb_checkFilterLists wb_dropInbound wb_checkDomainHeuristics
  wb_checkAutoPermitRelated

lemma wb_defaultDeciders: "\<forall>d \<in> set defaultDeciders. wellBehaved d"
  by (simp add: defaultDeciders_def wb_deciders)

lemma wb_dnsDeciders: "\<forall>d \<in> set dnsFromSystemResolverDeciders. wellBehaved d"
  by (simp add: dnsFromSystemResolverDeciders_def wb_deciders)

lemma runDeciders_shape:
  "\<forall>d \<in> set ds. wellBehaved d \<Longrightarrow> runDeciders env ds conn lp pkt = Inr (done, da, c') \<Longrightarrow>
     (if done then onlyVerdictChanged conn c' \<and> da = DefaultActionNotSet
      else c' = conn \<and> da = DefaultActionOf lp)"
proof (induction ds)
  case Nil
  then show ?case by auto
next
  case (Cons d ds)
  from Cons.prems(1) have wd: "wellBehaved d" and wds: "\<forall>d \<in> set ds. wellBehaved d" by auto
  from Cons.prems(2) obtain b c1 where d1: "d env conn lp pkt = Inr (b, c1)"
    by (auto split: sum.splits)
  show ?case
  proof (cases b)
    case True
    with d1 Cons.prems(2) have "done" "c' = c1" "da = DefaultActionNotSet" by auto
    moreover from wd d1 True have "onlyVerdictChanged conn c1"
      unfolding wellBehaved_def by (metis (full_types))
    ultimately show ?thesis by simp
  next
    case False
    from wd d1 False have "c1 = conn" unfolding wellBehaved_def by (metis (full_types))
    with d1 False Cons.prems(2) have "runDeciders env ds conn lp pkt = Inr (done, da, c')" by simp
    with Cons.IH wds show ?thesis by blast
  qed
qed

section \<open>The profile revision\<close>

lemma revision_in_force:
  "Profile (ConnProcess conn) = Some lp0 \<Longrightarrow> checkProfileRevision env lp0 conn = (lp, conn1) \<Longrightarrow>
     Profile (ConnProcess conn1) = Some lp \<and> ProfileRevisionCounter conn1 = RevisionCnt lp"
  by (auto simp: checkProfileRevision_def Update_def SaveWhenFinished_def Let_def
      split: if_splits option.splits)

lemma revision_keeps_inputs:
  "checkProfileRevision env lp0 conn = (lp, conn1) \<Longrightarrow>
     ConnType conn1 = ConnType conn \<and> Inbound conn1 = Inbound conn \<and> Resolver conn1 = Resolver conn
     \<and> Pid (ConnProcess conn1) = Pid (ConnProcess conn)
     \<and> Path (ConnProcess conn1) = Path (ConnProcess conn)
     \<and> Name (ConnProcess conn1) = Name (ConnProcess conn)
     \<and> ExecName (ConnProcess conn1) = ExecName (ConnProcess conn)
     \<and> IsSystemResolver (ConnProcess conn1) = IsSystemResolver (ConnProcess conn)
     \<and> map_option Domain (ConnEntity conn1) = map_option Domain (ConnEntity conn)
     \<and> map_option IPScope (ConnEntity conn1) = map_option IPScope (ConnEntity conn)"
  by (auto simp: checkProfileRevision_def Update_def SaveWhenFinished_def Let_def ResetLists_def
      split: if_splits option.splits)

lemma revision_entity:
  "checkProfileRevision env lp0 conn = (lp, conn1) \<Longrightarrow> ConnEntity conn = Some e \<Longrightarrow>
     \<exists>e1. ConnEntity conn1 = Some e1 \<and> IPScope e1 = IPScope e \<and> Domain e1 = Domain e"
  by (auto simp: checkProfileRevision_def Update_def SaveWhenFinished_def Let_def ResetLists_def
      split: if_splits option.splits)

lemma revision_settled:
  "Profile (ConnProcess c) = Some lp \<Longrightarrow> \<not> NeedsUpdate lp \<Longrightarrow>
     ProfileRevisionCounter c = RevisionCnt lp \<Longrightarrow> checkProfileRevision env lp c = (lp, c)"
  by (simp add: checkProfileRevision_def)

lemma onlyVerdictChanged_applyDefaultAction:
  "onlyVerdictChanged c (applyDefaultAction env da c pkt)"
  by (auto simp: applyDefaultAction_def prompt_def Accept_def Deny_def
      intro: onlyVerdictChanged_SetVerdict split: DefaultAction.splits prod.splits)

lemma decide_shape:
  assumes p: "Profile (ConnProcess conn) = Some lp0"
    and r: "checkProfileRevision env lp0 conn = (lp, conn1)"
    and d: "DecideOnConnection env conn pkt = Inr c"
  shows "onlyVerdictChanged conn1 c"
proof (cases "ConnType conn1 = DNSRequest \<and> IsSystemResolver (ConnProcess conn1)")
  case True
  with p r d obtain dn da c2 where
    run: "runDeciders env dnsFromSystemResolverDeciders conn1 lp pkt = Inr (dn, da, c2)"
    and c: "c = (if \<not> dn then Accept ''allowing system resolver dns request'' noReasonOptionKey c2 else c2)"
    by (auto simp: DecideOnConnection_def split: sum.splits if_splits)
  from runDeciders_shape [OF wb_dnsDeciders run] have "onlyVerdictChanged conn1 c2"
    by (auto simp: onlyVerdictChanged_refl split: if_splits)
  moreover have "onlyVerdictChanged c2 c"
    using c by (auto simp: Accept_def onlyVerdictChanged_refl onlyVerdictChanged_SetVerdict)
  ultimately show ?thesis by (rule onlyVerdictChanged_trans)
next
  case False
  with p r d obtain dn da c2 where
    run: "runDeciders env defaultDeciders conn1 lp pkt = Inr (dn, da, c2)"
    and c: "c = (if dn then c2 else applyDefaultAction env da c2 pkt)"
    by (auto simp: DecideOnConnection_def split: sum.splits if_splits)
  from runDeciders_shape [OF wb_defaultDeciders run] have "onlyVerdictChanged conn1 c2"
    by (auto simp: onlyVerdictChanged_refl split: if_splits)
  moreover have "onlyVerdictChanged c2 c"
    using c by (auto simp: onlyVerdictChanged_refl onlyVerdictChanged_applyDefaultAction)
  ultimately show ?thesis by (rule onlyVerdictChanged_trans)
qed

text \<open>C4. When the process has a profile and \<open>DecideOnConnection\<close> returns, the connection's
  revision counter is the revision counter of the profile its process then points to.
  When the profile needs no update and the stored counter differs from the profile's,
  the first part of the call only stores the counter and marks the connection dirty:
  the verdict is not reset, the profile is the same, and the dirty mark is still there
  on return.\<close>

theorem C4_revision_counter_follows_profile:
  assumes "Profile (ConnProcess conn) = Some lp0"
    and "DecideOnConnection env conn pkt = Inr c"
  shows "(\<exists>lp. Profile (ConnProcess c) = Some lp \<and> ProfileRevisionCounter c = RevisionCnt lp)
         \<and> (\<not> NeedsUpdate lp0 \<and> ProfileRevisionCounter conn \<noteq> RevisionCnt lp0 \<longrightarrow>
              checkProfileRevision env lp0 conn
                = (lp0, conn\<lparr>ProfileRevisionCounter := RevisionCnt lp0, saveWhenFinished := True\<rparr>)
              \<and> Profile (ConnProcess c) = Some lp0
              \<and> ProfileRevisionCounter c = RevisionCnt lp0
              \<and> saveWhenFinished c)"
proof -
  obtain lp conn1 where r: "checkProfileRevision env lp0 conn = (lp, conn1)"
    by (cases "checkProfileRevision env lp0 conn")
  from assms(1) r have inforce: "Profile (ConnProcess conn1) = Some lp \<and> ProfileRevisionCounter conn1 = RevisionCnt lp"
    by (rule revision_in_force)
  from assms(1) r assms(2) have "onlyVerdictChanged conn1 c" by (rule decide_shape)
  then have same: "ConnProcess c = ConnProcess conn1"
      "ProfileRevisionCounter c = ProfileRevisionCounter conn1"
      "saveWhenFinished c = saveWhenFinished conn1"
    by (simp_all add: onlyVerdictChanged_fields)
  from inforce same have first: "\<exists>lp. Profile (ConnProcess c) = Some lp \<and> ProfileRevisionCounter c = RevisionCnt lp"
    by simp
  have second: "checkProfileRevision env lp0 conn
                = (lp0, conn\<lparr>ProfileRevisionCounter := RevisionCnt lp0, saveWhenFinished := True\<rparr>)
              \<and> Profile (ConnProcess c) = Some lp0
              \<and> ProfileRevisionCounter c = RevisionCnt lp0
              \<and> saveWhenFinished c"
    if h: "\<not> NeedsUpdate lp0 \<and> ProfileRevisionCounter conn \<noteq> RevisionCnt lp0"
  proof -
    from h have e: "checkProfileRevision env lp0 conn
                = (lp0, conn\<lparr>ProfileRevisionCounter := RevisionCnt lp0, saveWhenFinished := True\<rparr>)"
      by (simp add: checkProfileRevision_def SaveWhenFinished_def Let_def)
    with r have "lp = lp0" "conn1 = conn\<lparr>ProfileRevisionCounter := RevisionCnt lp0, saveWhenFinished := True\<rparr>"
      by auto
    with inforce same e show ?thesis by simp
  qed
  from first second show ?thesis by blast
qed

theorem C4_revision_counter_follows_profile_witness:
  "Profile (ConnProcess staleConn) = Some plainProfile
   \<and> \<not> NeedsUpdate plainProfile \<and> ProfileRevisionCounter staleConn \<noteq> RevisionCnt plainProfile
   \<and> (\<exists>c. DecideOnConnection plainEnv staleConn None = Inr c
          \<and> Profile (ConnProcess c) = Some plainProfile
          \<and> ProfileRevisionCounter c = 7 \<and> saveWhenFinished c)"
proof -
  have p: "Profile (ConnProcess staleConn) = Some plainProfile"
    by (simp add: concrete_defs)
  have h: "\<not> NeedsUpdate plainProfile \<and> ProfileRevisionCounter staleConn \<noteq> RevisionCnt plainProfile"
    by (simp add: concrete_defs)
  have d: "DecideOnConnection plainEnv staleConn None
             = Inr (staleConn\<lparr>Verdict := VerdictDeny, ReasonMsg := ''blocked by default action'',
                     ReasonOptionKey := ''default-action'', ProfileRevisionCounter := 7,
                     saveWhenFinished := True\<rparr>)"
    by (simp add: pipeline_defs decider_defs concrete_defs setter_defs)
  have r: "RevisionCnt plainProfile = 7" by (simp add: plainProfile_def)
  from C4_revision_counter_follows_profile [OF p d] h r p show ?thesis
    using d by simp
qed

section \<open>No profile\<close>

text \<open>C5. When the process has no profile, \<open>DecideOnConnection\<close> returns the connection with
  the verdict Deny and the reason \<open>unknown process or profile\<close>, and with nothing else
  changed; neither the environment nor the packet has a part in the result, so no decider
  ran.\<close>

theorem C5_nil_profile_denied:
  "Profile (ConnProcess conn) = None \<Longrightarrow>
     DecideOnConnection env conn pkt
       = Inr (Deny ''unknown process or profile'' noReasonOptionKey conn)
     \<and> Deny ''unknown process or profile'' noReasonOptionKey conn
         = conn\<lparr>Verdict := VerdictDeny, ReasonMsg := ''unknown process or profile'',
                ReasonOptionKey := [], ReasonCtx := []\<rparr>"
  by (simp add: DecideOnConnection_def Deny_def SetVerdict_def noReasonOptionKey_def)

theorem C5_nil_profile_denied_witness:
  "Profile (ConnProcess orphanConn) = None
   \<and> DecideOnConnection plainEnv orphanConn None
       = Inr (orphanConn\<lparr>Verdict := VerdictDeny, ReasonMsg := ''unknown process or profile'',
                         ReasonOptionKey := [], ReasonCtx := []\<rparr>)"
proof -
  have p: "Profile (ConnProcess orphanConn) = None"
    by (simp add: concrete_defs)
  from C5_nil_profile_denied [OF p, of plainEnv None] p show ?thesis
    by simp
qed

section \<open>Scopes\<close>

text \<open>C2, as amended. On an IP connection whose entity has the scope Unknown or Invalid,
  when the three deciders that come before \<open>checkConnectionScope\<close> pass
  (\<open>checkPortmasterConnection\<close>, \<open>checkSelfCommunication\<close> and \<open>checkConnectionType\<close>, on
  the connection and profile that the pipeline sees), the verdict is Deny with the reason
  \<open>invalid IP\<close>.\<close>

theorem C2_invalid_scope_denied:
  assumes "Profile (ConnProcess conn) = Some lp0"
    and "checkProfileRevision env lp0 conn = (lp, conn1)"
    and "ConnType conn = IPConnection"
    and "ConnEntity conn = Some e"
    and "IPScope e = Unknown \<or> IPScope e = Invalid"
    and "passes checkPortmasterConnection env conn1 lp pkt"
    and "passes checkSelfCommunication env conn1 lp pkt"
    and "passes checkConnectionType env conn1 lp pkt"
  shows "DecideOnConnection env conn pkt = Inr (Deny ''invalid IP'' noReasonOptionKey conn1)
         \<and> Verdict (Deny ''invalid IP'' noReasonOptionKey conn1) = VerdictDeny
         \<and> ReasonMsg (Deny ''invalid IP'' noReasonOptionKey conn1) = ''invalid IP''"
proof -
  from assms(2,4) obtain e1 where e1: "ConnEntity conn1 = Some e1" "IPScope e1 = IPScope e"
    by (blast dest: revision_entity)
  from assms(2,3) have t: "ConnType conn1 = IPConnection"
    by (simp add: revision_keeps_inputs)
  from e1 t assms(5) have scope:
    "checkConnectionScope env conn1 lp pkt = Inr (True, Deny ''invalid IP'' noReasonOptionKey conn1)"
    by (auto simp: checkConnectionScope_def)
  from assms(6,7,8) scope have
    "runDeciders env defaultDeciders conn1 lp pkt
       = Inr (True, DefaultActionNotSet, Deny ''invalid IP'' noReasonOptionKey conn1)"
    by (simp add: defaultDeciders_def passes_def)
  with assms(1,2) t have
    "DecideOnConnection env conn pkt = Inr (Deny ''invalid IP'' noReasonOptionKey conn1)"
    by (simp add: DecideOnConnection_def)
  then show ?thesis by (simp add: Deny_def SetVerdict_def)
qed

theorem C2_invalid_scope_denied_witness:
  "ConnType invalidConn = IPConnection \<and> ConnEntity invalidConn = Some invalidEntity
   \<and> IPScope invalidEntity = Invalid
   \<and> DecideOnConnection plainEnv invalidConn None
       = Inr (invalidConn\<lparr>Verdict := VerdictDeny, ReasonMsg := ''invalid IP''\<rparr>)"
proof -
  have p: "Profile (ConnProcess invalidConn) = Some plainProfile"
    and r: "checkProfileRevision plainEnv plainProfile invalidConn = (plainProfile, invalidConn)"
    and t: "ConnType invalidConn = IPConnection"
    and e: "ConnEntity invalidConn = Some invalidEntity"
    and s: "IPScope invalidEntity = Unknown \<or> IPScope invalidEntity = Invalid"
    by (simp_all add: pipeline_defs concrete_defs)
  have d: "passes checkPortmasterConnection plainEnv invalidConn plainProfile None"
      "passes checkSelfCommunication plainEnv invalidConn plainProfile None"
      "passes checkConnectionType plainEnv invalidConn plainProfile None"
    by (simp_all add: passes_def decider_defs concrete_defs)
  from C2_invalid_scope_denied [OF p r t e s d] t e show ?thesis
    by (simp add: setter_defs noReasonOptionKey_def invalidConn_def outboundConn_def
        invalidEntity_def)
qed

text \<open>The claim C2 as it is written fails: a connection of Portmaster itself to an address of
  invalid scope is accepted by the first decider.\<close>

theorem C2_counterexample:
  "Profile (ConnProcess ownConn) = Some plainProfile \<and> ConnType ownConn = IPConnection
   \<and> ConnEntity ownConn = Some invalidEntity \<and> IPScope invalidEntity = Invalid
   \<and> DecideOnConnection plainEnv ownConn None
       = Inr (ownConn\<lparr>Verdict := VerdictAccept, ReasonMsg := ''connection by Portmaster'',
                       Internal := True\<rparr>)"
  by (simp add: pipeline_defs decider_defs concrete_defs setter_defs)

text \<open>C3, as amended. On an IP connection under a profile with \<open>RemoveOutOfScopeDNS\<close>, with a
  resolver of global scope and an entity whose scope is not global, when the five deciders
  that come before \<open>checkResolverScope\<close> pass, the verdict is Block with the reason of the
  horizon violation.\<close>

theorem C3_horizon_violation_blocked:
  assumes "Profile (ConnProcess conn) = Some lp0"
    and "checkProfileRevision env lp0 conn = (lp, conn1)"
    and "ConnType conn = IPConnection"
    and "RemoveOutOfScopeDNS lp"
    and "Resolver conn = Some r"
    and "IsGlobal (ResolverIPScope r)"
    and "ConnEntity conn = Some e"
    and "\<not> IsGlobal (IPScope e)"
    and "passes checkPortmasterConnection env conn1 lp pkt"
    and "passes checkSelfCommunication env conn1 lp pkt"
    and "passes checkConnectionType env conn1 lp pkt"
    and "passes checkConnectionScope env conn1 lp pkt"
    and "passes checkEndpointLists env conn1 lp pkt"
  shows "DecideOnConnection env conn pkt
           = Inr (Block ''DNS server horizon violation: global DNS server returned local IP address''
                    (CfgOptionRemoveOutOfScopeDNSKey env) conn1)
         \<and> Verdict (Block ''DNS server horizon violation: global DNS server returned local IP address''
                      (CfgOptionRemoveOutOfScopeDNSKey env) conn1) = VerdictBlock
         \<and> ReasonMsg (Block ''DNS server horizon violation: global DNS server returned local IP address''
                        (CfgOptionRemoveOutOfScopeDNSKey env) conn1)
             = ''DNS server horizon violation: global DNS server returned local IP address''"
proof -
  let ?c = "Block ''DNS server horizon violation: global DNS server returned local IP address''
              (CfgOptionRemoveOutOfScopeDNSKey env) conn1"
  from assms(2,7) obtain e1 where e1: "ConnEntity conn1 = Some e1" "IPScope e1 = IPScope e"
    by (blast dest: revision_entity)
  from assms(2,3,5) have t: "ConnType conn1 = IPConnection" "Resolver conn1 = Some r"
    by (simp_all add: revision_keeps_inputs)
  from assms(12) e1 t have "IPScope e1 \<noteq> Unknown \<and> IPScope e1 \<noteq> Invalid"
    by (auto simp: passes_def checkConnectionScope_def)
  with assms(8) e1 have "IsLAN (IPScope e1) \<or> IsLocalhost (IPScope e1)"
    by (cases "IPScope e1") auto
  with e1 t assms(4,6) have scope: "checkResolverScope env conn1 lp pkt = Inr (True, ?c)"
    by (simp add: checkResolverScope_def)
  from assms(9-13) scope have
    "runDeciders env defaultDeciders conn1 lp pkt = Inr (True, DefaultActionNotSet, ?c)"
    by (simp add: defaultDeciders_def passes_def)
  with assms(1,2) t have "DecideOnConnection env conn pkt = Inr ?c"
    by (simp add: DecideOnConnection_def)
  then show ?thesis by (simp add: Block_def SetVerdict_def)
qed

theorem C3_horizon_violation_blocked_witness:
  "RemoveOutOfScopeDNS horizonProfile
   \<and> Resolver (routerConn horizonProfile) = Some globalResolver
   \<and> ResolverIPScope globalResolver = Global \<and> IPScope routerEntity = SiteLocal
   \<and> DecideOnConnection plainEnv (routerConn horizonProfile) None
       = Inr ((routerConn horizonProfile)
                \<lparr>Verdict := VerdictBlock,
                 ReasonMsg := ''DNS server horizon violation: global DNS server returned local IP address'',
                 ReasonOptionKey := ''remove-out-of-scope-dns''\<rparr>)"
proof -
  have p: "Profile (ConnProcess (routerConn horizonProfile)) = Some horizonProfile"
    and r: "checkProfileRevision plainEnv horizonProfile (routerConn horizonProfile)
              = (horizonProfile, routerConn horizonProfile)"
    and t: "ConnType (routerConn horizonProfile) = IPConnection"
    and o: "RemoveOutOfScopeDNS horizonProfile"
    and rs: "Resolver (routerConn horizonProfile) = Some globalResolver"
    and g: "IsGlobal (ResolverIPScope globalResolver)"
    and e: "ConnEntity (routerConn horizonProfile) = Some routerEntity"
    and s: "\<not> IsGlobal (IPScope routerEntity)"
    by (simp_all add: pipeline_defs concrete_defs)
  have d: "passes checkPortmasterConnection plainEnv (routerConn horizonProfile) horizonProfile None"
      "passes checkSelfCommunication plainEnv (routerConn horizonProfile) horizonProfile None"
      "passes checkConnectionType plainEnv (routerConn horizonProfile) horizonProfile None"
      "passes checkConnectionScope plainEnv (routerConn horizonProfile) horizonProfile None"
      "passes checkEndpointLists plainEnv (routerConn horizonProfile) horizonProfile None"
    by (simp_all add: passes_def decider_defs concrete_defs)
  from C3_horizon_violation_blocked [OF p r t o rs g e s d] o rs show ?thesis
    by (simp add: setter_defs plainEnv_def routerConn_def outboundConn_def routerEntity_def
        globalResolver_def)
qed

text \<open>The claim C3 as it is written fails: an endpoint rule that permits the local address is
  matched before the resolver's scope is looked at, and the connection is accepted.\<close>

theorem C3_counterexample:
  "Profile (ConnProcess (routerConn permitLanProfile)) = Some permitLanProfile
   \<and> ConnType (routerConn permitLanProfile) = IPConnection
   \<and> RemoveOutOfScopeDNS permitLanProfile
   \<and> Resolver (routerConn permitLanProfile) = Some globalResolver
   \<and> ResolverIPScope globalResolver = Global
   \<and> ConnEntity (routerConn permitLanProfile) = Some routerEntity
   \<and> IPScope routerEntity = SiteLocal
   \<and> DecideOnConnection plainEnv (routerConn permitLanProfile) None
       = Inr ((routerConn permitLanProfile)
               \<lparr>Verdict := VerdictAccept, ReasonMsg := ''permitted by rule: + 192.168.0.0/16'',
                ReasonOptionKey := ''endpoints''\<rparr>)"
  by (simp add: pipeline_defs decider_defs concrete_defs setter_defs)

section \<open>DNS requests of the system resolver\<close>

text \<open>C6. On a DNS request of the system resolver (with a profile and an entity), the result
  of \<open>DecideOnConnection\<close> is fixed by \<open>checkConnectivityDomain\<close> and
  \<open>checkBypassPrevention\<close> alone: the special grant, the bypass module's block or
  permission, or else Accept with the reason \<open>allowing system resolver dns request\<close>.
  The default action, the prompt and the inputs of the other deciders do not occur in it.
  In particular, when both deciders pass, the verdict is Accept with that reason.\<close>

theorem C6_system_resolver_pipeline:
  assumes "Profile (ConnProcess conn) = Some lp0"
    and "checkProfileRevision env lp0 conn = (lp, conn1)"
    and "ConnType conn = DNSRequest"
    and "IsSystemResolver (ConnProcess conn)"
    and "ConnEntity conn = Some e"
  shows "DecideOnConnection env conn pkt =
           Inr (if Domain e \<noteq> [] \<and> GetOnlineStatus env \<le> StatusPortal env \<and> \<not> Inbound conn
                   \<and> \<not> BlockScopeInternet lp \<and> IsConnectivityDomain env (Domain e)
                then Accept ''special grant for connectivity domain during network bootstrap''
                       noReasonOptionKey conn1
                else if PreventBypassingOpt lp \<and> fst (PreventBypassing env conn1) = Denied
                then BlockWithContext (''bypass prevention: '' @ fst (snd (PreventBypassing env conn1)))
                       (CfgOptionPreventBypassingKey env) (snd (snd (PreventBypassing env conn1))) conn1
                else if PreventBypassingOpt lp \<and> fst (PreventBypassing env conn1) = Permitted
                then AcceptWithContext (''bypass prevention: '' @ fst (snd (PreventBypassing env conn1)))
                       (CfgOptionPreventBypassingKey env) (snd (snd (PreventBypassing env conn1))) conn1
                else Accept ''allowing system resolver dns request'' noReasonOptionKey conn1)
         \<and> (passes checkConnectivityDomain env conn1 lp pkt
              \<and> passes checkBypassPrevention env conn1 lp pkt \<longrightarrow>
            (\<exists>c. DecideOnConnection env conn pkt = Inr c \<and> Verdict c = VerdictAccept
                  \<and> ReasonMsg c = ''allowing system resolver dns request''))"
proof -
  from assms(2,5) obtain e1 where e1: "ConnEntity conn1 = Some e1" "Domain e1 = Domain e"
    by (blast dest: revision_entity)
  from assms(2,3,4) have t: "ConnType conn1 = DNSRequest" "IsSystemResolver (ConnProcess conn1)"
      "Inbound conn1 = Inbound conn"
    by (simp_all add: revision_keeps_inputs)
  have first: "DecideOnConnection env conn pkt =
           Inr (if Domain e \<noteq> [] \<and> GetOnlineStatus env \<le> StatusPortal env \<and> \<not> Inbound conn
                   \<and> \<not> BlockScopeInternet lp \<and> IsConnectivityDomain env (Domain e)
                then Accept ''special grant for connectivity domain during network bootstrap''
                       noReasonOptionKey conn1
                else if PreventBypassingOpt lp \<and> fst (PreventBypassing env conn1) = Denied
                then BlockWithContext (''bypass prevention: '' @ fst (snd (PreventBypassing env conn1)))
                       (CfgOptionPreventBypassingKey env) (snd (snd (PreventBypassing env conn1))) conn1
                else if PreventBypassingOpt lp \<and> fst (PreventBypassing env conn1) = Permitted
                then AcceptWithContext (''bypass prevention: '' @ fst (snd (PreventBypassing env conn1)))
                       (CfgOptionPreventBypassingKey env) (snd (snd (PreventBypassing env conn1))) conn1
                else Accept ''allowing system resolver dns request'' noReasonOptionKey conn1)"
    using assms(1,2) e1 t
    by (cases "PreventBypassing env conn1"; cases "fst (PreventBypassing env conn1)")
       (auto simp: DecideOnConnection_def dnsFromSystemResolverDeciders_def
          checkConnectivityDomain_def checkBypassPrevention_def)
  have second: "\<exists>c. DecideOnConnection env conn pkt = Inr c \<and> Verdict c = VerdictAccept
                  \<and> ReasonMsg c = ''allowing system resolver dns request''"
    if "passes checkConnectivityDomain env conn1 lp pkt \<and> passes checkBypassPrevention env conn1 lp pkt"
    using that assms(1,2) t
    by (simp add: DecideOnConnection_def dnsFromSystemResolverDeciders_def passes_def
        Accept_def SetVerdict_def)
  from first second show ?thesis by blast
qed

theorem C6_system_resolver_pipeline_witness:
  "ConnType dnsConn = DNSRequest \<and> IsSystemResolver (ConnProcess dnsConn)
   \<and> passes checkConnectivityDomain plainEnv dnsConn plainProfile None
   \<and> passes checkBypassPrevention plainEnv dnsConn plainProfile None
   \<and> DefaultActionOf plainProfile = DefaultActionBlock
   \<and> DecideOnConnection plainEnv dnsConn None
       = Inr (dnsConn\<lparr>Verdict := VerdictAccept,
                      ReasonMsg := ''allowing system resolver dns request''\<rparr>)"
proof -
  have p: "Profile (ConnProcess dnsConn) = Some plainProfile"
    and r: "checkProfileRevision plainEnv plainProfile dnsConn = (plainProfile, dnsConn)"
    and t: "ConnType dnsConn = DNSRequest" and s: "IsSystemResolver (ConnProcess dnsConn)"
    and e: "ConnEntity dnsConn = Some mailGoogle"
    by (simp_all add: pipeline_defs concrete_defs)
  have d: "passes checkConnectivityDomain plainEnv dnsConn plainProfile None"
      "passes checkBypassPrevention plainEnv dnsConn plainProfile None"
      "DefaultActionOf plainProfile = DefaultActionBlock"
    by (simp_all add: passes_def decider_defs concrete_defs)
  from C6_system_resolver_pipeline [OF p r t s e, of None] t s d show ?thesis
    by (simp add: concrete_defs setter_defs noReasonOptionKey_def)
qed

section \<open>Domain heuristics\<close>

lemma strings_Split_nonempty: "strings_Split s sep \<noteq> []"
  by (induction s) (auto split: list.splits)

lemma checkDomainHeuristics_scored_prefix:
  assumes "DomainHeuristics lp" and "ConnEntity conn = Some e" and "Domain e \<noteq> []"
    and "EffectiveTLDPlusOne env (strings_TrimRight (Domain e) ''.'') = Inr etld1"
    and "LmsScore env (hd (strings_Split etld1 CHR ''.'')) \<ge> 5"
    and "length (Domain e) > length etld1 + 100"
    and "length etld1 \<le> length (strings_TrimRight (Domain e) ''.'')"
  shows "checkDomainHeuristics env conn lp pkt =
           (if LmsScoreOfDomain env (take (length etld1) (strings_TrimRight (Domain e) ''.'')) < 10
            then Inr (True, Block ''possible data tunnel for covert communication and protection bypassing''
                              (CfgOptionDomainHeuristicsKey env) conn)
            else Inr (False, conn))"
  using assms by (simp add: checkDomainHeuristics_def Let_def)

lemma tunnel_trim: "strings_TrimRight (Domain tunnelEntity) ''.'' = Domain tunnelEntity"
  by (simp add: strings_TrimRight_def tunnelEntity_def)

text \<open>C7. What \<open>checkDomainHeuristics\<close> scores on a long domain is the slice
  \<open>trimmedDomain[0:len(etld1)]\<close>: as many bytes from the front as the eTLD+1 is long, not
  what stands in front of the eTLD+1. On the domain of \<open>tunnelEntity\<close> the heuristics are
  on, the eTLD+1 is \<open>example.com\<close>, its label scores 100, the domain is 121 bytes longer
  than the eTLD+1, and the 121 bytes in front of the eTLD+1 score 0; yet the decider
  passes, because the 11 bytes it scores do well.\<close>

theorem C7_tunnel_prefix_not_scored:
  "DomainHeuristics (plainProfile\<lparr>DomainHeuristics := True\<rparr>)
   \<and> ConnEntity tunnelConn = Some tunnelEntity
   \<and> EffectiveTLDPlusOne tunnelEnv (strings_TrimRight (Domain tunnelEntity) ''.'') = Inr ''example.com''
   \<and> 5 \<le> LmsScore tunnelEnv (hd (strings_Split ''example.com'' CHR ''.''))
   \<and> length ''example.com'' + 100 < length (Domain tunnelEntity)
   \<and> take 121 (Domain tunnelEntity) @ ''example.com'' = Domain tunnelEntity
   \<and> LmsScoreOfDomain tunnelEnv (take 121 (Domain tunnelEntity)) < 10
   \<and> take (length ''example.com'') (Domain tunnelEntity) = ''aaaaaaaaaaa''
   \<and> checkDomainHeuristics tunnelEnv tunnelConn (plainProfile\<lparr>DomainHeuristics := True\<rparr>) None
       = Inr (False, tunnelConn)"
  by (simp add: checkDomainHeuristics_def Let_def tunnel_trim tunnelEnv_def tunnelConn_def
      plainEnv_def plainProfile_def outboundConn_def withProfile_def chromeProcess_def)
     (simp add: tunnelEntity_def)

section \<open>Related domains\<close>

lemma checkRelation_domain_guard:
  "ConnEntity conn = Some e \<Longrightarrow> Domain e \<noteq> [] \<Longrightarrow> checkRelation env conn = Inr (False, [])"
  by (simp add: checkRelation_def)

lemma checkAutoPermitRelated_domain_guard:
  "ConnEntity conn = Some e \<Longrightarrow> Domain e \<noteq> [] \<Longrightarrow> passes checkAutoPermitRelated env conn lp pkt"
  by (simp add: passes_def checkAutoPermitRelated_def checkRelation_def)

text \<open>C1. \<open>checkRelation\<close> returns unrelated as soon as the domain is not empty. For the
  connection of \<open>google-chrome\<close> to \<open>mail.google.com\<close>, under the default action Block
  and with auto permit not disabled, \<open>checkAutoPermitRelated\<close> passes and the verdict is
  Deny by the default action, whatever the Levenshtein library answers.\<close>

theorem C1_related_domain_not_permitted:
  "checkRelation (plainEnv\<lparr>levenshtein_Match := m\<rparr>) chromeConn = Inr (False, [])
   \<and> checkAutoPermitRelated (plainEnv\<lparr>levenshtein_Match := m\<rparr>) chromeConn plainProfile None
       = Inr (False, chromeConn)
   \<and> DecideOnConnection (plainEnv\<lparr>levenshtein_Match := m\<rparr>) chromeConn None
       = Inr (chromeConn\<lparr>Verdict := VerdictDeny, ReasonMsg := ''blocked by default action'',
                          ReasonOptionKey := ''default-action''\<rparr>)"
  by (simp add: pipeline_defs decider_defs concrete_defs setter_defs)

section \<open>Deciding again\<close>

lemma sameInputs_as_update:
  "sameInputs c c' \<Longrightarrow>
     c' = c\<lparr>Verdict := Verdict c', ReasonMsg := ReasonMsg c', ReasonOptionKey := ReasonOptionKey c',
            ReasonCtx := ReasonCtx c', Internal := Internal c',
            saveWhenFinished := saveWhenFinished c'\<rparr>"
  by (cases c, cases c') (simp add: sameInputs_def)

lemma onlyVerdictChanged_sameInputs: "onlyVerdictChanged c c' \<Longrightarrow> sameInputs c c'"
  by (simp add: sameInputs_def onlyVerdictChanged_fields)

lemma inputDeterminedI:
  assumes "\<And>c lp pkt v m k x i s.
     outcome (d env (c\<lparr>Verdict := v, ReasonMsg := m, ReasonOptionKey := k, ReasonCtx := x,
                        Internal := i, saveWhenFinished := s\<rparr>) lp pkt)
       = outcome (d env c lp pkt)"
  shows "inputDetermined env d"
  unfolding inputDetermined_def
proof (intro allI impI)
  fix c c' lp pkt
  assume "sameInputs c c'"
  then have "c' = c\<lparr>Verdict := Verdict c', ReasonMsg := ReasonMsg c',
            ReasonOptionKey := ReasonOptionKey c', ReasonCtx := ReasonCtx c', Internal := Internal c',
            saveWhenFinished := saveWhenFinished c'\<rparr>"
    by (rule sameInputs_as_update)
  then have "outcome (d env c' lp pkt) = outcome (d env c lp pkt)"
    using assms [where c = c and lp = lp and pkt = pkt and v = "Verdict c'" and m = "ReasonMsg c'"
        and k = "ReasonOptionKey c'" and x = "ReasonCtx c'" and i = "Internal c'"
        and s = "saveWhenFinished c'"]
    by simp
  then show "outcome (d env c lp pkt) = outcome (d env c' lp pkt)" by simp
qed

lemma id_checkPortmasterConnection: "inputDetermined env checkPortmasterConnection"
  by (rule inputDeterminedI) (simp add: outcome_def checkPortmasterConnection_def setter_defs)

lemma id_checkSelfCommunication: "inputDetermined env checkSelfCommunication"
  by (rule inputDeterminedI)
     (simp add: outcome_def checkSelfCommunication_def setter_defs Let_def
        split: option.splits sum.splits)

lemma id_checkConnectionType: "inputDetermined env checkConnectionType"
  by (rule inputDeterminedI)
     (simp add: outcome_def checkConnectionType_def setter_defs split: option.splits)

lemma id_checkConnectionScope: "inputDetermined env checkConnectionScope"
  by (rule inputDeterminedI)
     (simp add: outcome_def checkConnectionScope_def setter_defs
        split: option.splits IPScope.splits)

lemma id_checkEndpointLists: "inputDetermined env checkEndpointLists"
  by (rule inputDeterminedI)
     (simp add: outcome_def checkEndpointLists_def setter_defs
        split: prod.splits EPResult.splits)

lemma id_checkResolverScope: "inputDetermined env checkResolverScope"
  by (rule inputDeterminedI)
     (simp add: outcome_def checkResolverScope_def lanResolverCase_def setter_defs
        split: option.splits)

lemma id_checkConnectivityDomain: "inputDetermined env checkConnectivityDomain"
  by (rule inputDeterminedI)
     (simp add: outcome_def checkConnectivityDomain_def setter_defs split: option.splits)

lemma id_checkBypassPrevention:
  assumes "\<forall>c c'. sameInputs c c' \<longrightarrow> PreventBypassing env c = PreventBypassing env c'"
  shows "inputDetermined env checkBypassPrevention"
  unfolding inputDetermined_def
proof (intro allI impI)
  fix c c' lp pkt
  assume s: "sameInputs c c'"
  with assms have "PreventBypassing env c = PreventBypassing env c'" by blast
  then show "outcome (checkBypassPrevention env c lp pkt) = outcome (checkBypassPrevention env c' lp pkt)"
    by (simp add: outcome_def checkBypassPrevention_def setter_defs
        split: prod.splits EPResult.splits)
qed

lemma id_checkFilterLists: "inputDetermined env checkFilterLists"
  by (rule inputDeterminedI)
     (simp add: outcome_def checkFilterLists_def setter_defs split: prod.splits EPResult.splits)

lemma id_dropInbound: "inputDetermined env dropInbound"
  by (rule inputDeterminedI) (simp add: outcome_def dropInbound_def setter_defs)

lemma id_checkDomainHeuristics: "inputDetermined env checkDomainHeuristics"
  by (rule inputDeterminedI)
     (simp add: outcome_def checkDomainHeuristics_def setter_defs Let_def
        split: option.splits sum.splits)

lemma id_checkAutoPermitRelated: "inputDetermined env checkAutoPermitRelated"
  by (rule inputDeterminedI)
     (simp add: outcome_def checkAutoPermitRelated_def checkRelation_def setter_defs Let_def
        split: option.splits sum.splits prod.splits)

lemma id_defaultDeciders:
  "\<forall>c c'. sameInputs c c' \<longrightarrow> PreventBypassing env c = PreventBypassing env c' \<Longrightarrow>
     \<forall>d \<in> set defaultDeciders. inputDetermined env d"
  by (simp add: defaultDeciders_def id_checkPortmasterConnection id_checkSelfCommunication
      id_checkConnectionType id_checkConnectionScope id_checkEndpointLists id_checkResolverScope
      id_checkConnectivityDomain id_checkBypassPrevention id_checkFilterLists id_dropInbound
      id_checkDomainHeuristics id_checkAutoPermitRelated)

lemma id_dnsDeciders:
  "\<forall>c c'. sameInputs c c' \<longrightarrow> PreventBypassing env c = PreventBypassing env c' \<Longrightarrow>
     \<forall>d \<in> set dnsFromSystemResolverDeciders. inputDetermined env d"
  by (simp add: dnsFromSystemResolverDeciders_def id_checkConnectivityDomain
      id_checkBypassPrevention)

lemma runDeciders_same:
  assumes "\<forall>d \<in> set ds. wellBehaved d" and "\<forall>d \<in> set ds. inputDetermined env d"
    and "sameInputs c c'"
  shows "runOutcome (runDeciders env ds c lp pkt) = runOutcome (runDeciders env ds c' lp pkt)"
  using assms
proof (induction ds)
  case Nil
  then show ?case by (simp add: runOutcome_def)
next
  case (Cons d ds)
  from Cons.prems have wd: "wellBehaved d" and idd: "inputDetermined env d" by auto
  from idd Cons.prems(3) have o: "outcome (d env c lp pkt) = outcome (d env c' lp pkt)"
    unfolding inputDetermined_def by blast
  show ?case
  proof (cases "d env c lp pkt")
    case (Inl e)
    with o have "d env c' lp pkt = Inl e"
      by (auto simp: outcome_def split: sum.splits prod.splits)
    with Inl show ?thesis by (simp add: runOutcome_def)
  next
    case (Inr bc)
    obtain b x where bc: "bc = (b, x)" by (cases bc)
    with Inr o obtain x' where r': "d env c' lp pkt = Inr (b, x')"
      by (auto simp: outcome_def split: sum.splits prod.splits if_splits)
    show ?thesis
    proof (cases b)
      case True
      with Inr bc r' o show ?thesis by (auto simp: outcome_def runOutcome_def)
    next
      case False
      from wd Inr bc False have "x = c" unfolding wellBehaved_def by (metis (full_types))
      moreover from wd r' False have "x' = c'" unfolding wellBehaved_def by (metis (full_types))
      moreover from Cons.IH Cons.prems have
        "runOutcome (runDeciders env ds c lp pkt) = runOutcome (runDeciders env ds c' lp pkt)"
        by simp
      ultimately show ?thesis using Inr bc r' False by simp
    qed
  qed
qed

lemma applyDefaultAction_same:
  assumes "\<forall>c c'. sameInputs c c' \<longrightarrow> promptAnswer env c pkt = promptAnswer env c' pkt"
    and "sameInputs a b"
  shows "Verdict (applyDefaultAction env da a pkt) = Verdict (applyDefaultAction env da b pkt)
         \<and> ReasonMsg (applyDefaultAction env da a pkt) = ReasonMsg (applyDefaultAction env da b pkt)"
proof -
  from assms have "promptAnswer env a pkt = promptAnswer env b pkt" by blast
  then show ?thesis
    by (cases da) (auto simp: applyDefaultAction_def prompt_def setter_defs split: prod.splits)
qed

text \<open>C9. Let a first call of \<open>DecideOnConnection\<close> return, and let the profile of the
  connection then need no update. Let the bypass module and the prompt answer alike on
  connections that carry the same inputs. Then a second call on the connection as the
  first call left it returns, with the verdict and the reason of the first call.\<close>

theorem C9_decide_again_same_verdict:
  assumes first: "DecideOnConnection env conn pkt = Inr c1"
    and settled: "\<forall>lp. Profile (ConnProcess c1) = Some lp \<longrightarrow> \<not> NeedsUpdate lp"
    and bypass: "\<forall>c c'. sameInputs c c' \<longrightarrow> PreventBypassing env c = PreventBypassing env c'"
    and answer: "\<forall>c c'. sameInputs c c' \<longrightarrow> promptAnswer env c pkt = promptAnswer env c' pkt"
  shows "\<exists>c2. DecideOnConnection env c1 pkt = Inr c2 \<and> Verdict c2 = Verdict c1
              \<and> ReasonMsg c2 = ReasonMsg c1"
proof (cases "Profile (ConnProcess conn)")
  case None
  with first have c1: "c1 = Deny ''unknown process or profile'' noReasonOptionKey conn"
    by (simp add: DecideOnConnection_def)
  with None have "Profile (ConnProcess c1) = None" by (simp add: setter_defs)
  then have "DecideOnConnection env c1 pkt = Inr (Deny ''unknown process or profile'' noReasonOptionKey c1)"
    by (simp add: DecideOnConnection_def)
  with c1 show ?thesis by (simp add: setter_defs)
next
  case (Some lp0)
  obtain lp conn1 where r: "checkProfileRevision env lp0 conn = (lp, conn1)"
    by (cases "checkProfileRevision env lp0 conn")
  from Some r have
    "Profile (ConnProcess conn1) = Some lp \<and> ProfileRevisionCounter conn1 = RevisionCnt lp"
    by (rule revision_in_force)
  then have inforce: "Profile (ConnProcess conn1) = Some lp"
      "ProfileRevisionCounter conn1 = RevisionCnt lp"
    by simp_all
  from Some r first have ovc: "onlyVerdictChanged conn1 c1" by (rule decide_shape)
  then have si: "sameInputs conn1 c1" by (rule onlyVerdictChanged_sameInputs)
  from ovc inforce have p1: "Profile (ConnProcess c1) = Some lp"
      "ProfileRevisionCounter c1 = RevisionCnt lp"
    by (simp_all add: onlyVerdictChanged_fields)
  with settled have r1: "checkProfileRevision env lp c1 = (lp, c1)"
    by (simp add: revision_settled)
  from ovc have t: "ConnType c1 = ConnType conn1" "ConnProcess c1 = ConnProcess conn1"
    by (simp_all add: onlyVerdictChanged_fields)
  show ?thesis
  proof (cases "ConnType conn1 = DNSRequest \<and> IsSystemResolver (ConnProcess conn1)")
    case True
    from Some r first True obtain dn da x where
      run: "runDeciders env dnsFromSystemResolverDeciders conn1 lp pkt = Inr (dn, da, x)"
      and c1: "c1 = (if \<not> dn then Accept ''allowing system resolver dns request'' noReasonOptionKey x else x)"
      by (auto simp: DecideOnConnection_def split: sum.splits if_splits)
    from runDeciders_same [OF wb_dnsDeciders id_dnsDeciders [OF bypass] si, of lp pkt] run
    obtain x' where run': "runDeciders env dnsFromSystemResolverDeciders c1 lp pkt = Inr (dn, da, x')"
      and vx: "dn \<longrightarrow> Verdict x' = Verdict x \<and> ReasonMsg x' = ReasonMsg x"
      by (auto simp: runOutcome_def split: sum.splits prod.splits if_splits)
    from p1 r1 True t run' have
      "DecideOnConnection env c1 pkt
         = Inr (if \<not> dn then Accept ''allowing system resolver dns request'' noReasonOptionKey x' else x')"
      by (simp add: DecideOnConnection_def)
    with c1 vx show ?thesis by (auto simp: setter_defs)
  next
    case False
    from Some r first False obtain dn da x where
      run: "runDeciders env defaultDeciders conn1 lp pkt = Inr (dn, da, x)"
      and c1: "c1 = (if dn then x else applyDefaultAction env da x pkt)"
      by (auto simp: DecideOnConnection_def split: sum.splits if_splits)
    from runDeciders_same [OF wb_defaultDeciders id_defaultDeciders [OF bypass] si, of lp pkt] run
    obtain x' where run': "runDeciders env defaultDeciders c1 lp pkt = Inr (dn, da, x')"
      and vx: "dn \<longrightarrow> Verdict x' = Verdict x \<and> ReasonMsg x' = ReasonMsg x"
      by (auto simp: runOutcome_def split: sum.splits prod.splits if_splits)
    from p1 r1 False t run' have d2:
      "DecideOnConnection env c1 pkt = Inr (if dn then x' else applyDefaultAction env da x' pkt)"
      by (auto simp: DecideOnConnection_def)
    show ?thesis
    proof (cases dn)
      case True
      with d2 c1 vx show ?thesis by simp
    next
      case False
      from runDeciders_shape [OF wb_defaultDeciders run] False have "x = conn1" by simp
      moreover from runDeciders_shape [OF wb_defaultDeciders run'] False have "x' = c1" by simp
      ultimately have "sameInputs x' x" using si by (simp add: sameInputs_def)
      with answer have "Verdict (applyDefaultAction env da x' pkt) = Verdict (applyDefaultAction env da x pkt)
         \<and> ReasonMsg (applyDefaultAction env da x' pkt) = ReasonMsg (applyDefaultAction env da x pkt)"
        by (rule applyDefaultAction_same)
      with d2 c1 False show ?thesis by simp
    qed
  qed
qed

theorem C9_decide_again_same_verdict_witness:
  "\<exists>c1 c2. DecideOnConnection plainEnv outdatedConn None = Inr c1
           \<and> DecideOnConnection plainEnv c1 None = Inr c2
           \<and> Verdict c2 = Verdict c1 \<and> ReasonMsg c2 = ReasonMsg c1
           \<and> Verdict c1 = VerdictDeny \<and> ReasonMsg c1 = ''blocked by default action''"
proof -
  let ?lp = "plainProfile\<lparr>RevisionCnt := 8\<rparr>"
  let ?c1 = "outdatedConn\<lparr>ConnProcess := withProfile ?lp chromeProcess,
               Verdict := VerdictDeny, ReasonMsg := ''blocked by default action'',
               ReasonOptionKey := ''default-action'', ProfileRevisionCounter := 8,
               saveWhenFinished := True\<rparr>"
  have first: "DecideOnConnection plainEnv outdatedConn None = Inr ?c1"
    by (simp add: pipeline_defs decider_defs concrete_defs setter_defs)
  have settled: "\<forall>lp. Profile (ConnProcess ?c1) = Some lp \<longrightarrow> \<not> NeedsUpdate lp"
    by (simp add: concrete_defs)
  have bypass: "\<forall>c c'. sameInputs c c' \<longrightarrow> PreventBypassing plainEnv c = PreventBypassing plainEnv c'"
    by (simp add: sameInputs_def plainEnv_def)
  have answer: "\<forall>c c'. sameInputs c c' \<longrightarrow> promptAnswer plainEnv c None = promptAnswer plainEnv c' None"
    by (simp add: plainEnv_def)
  from C9_decide_again_same_verdict [OF first settled bypass answer] first show ?thesis
    by (simp add: concrete_defs)
qed

section \<open>The call returns\<close>

lemma returns_checkDomainHeuristics:
  assumes "suffixLike env"
  shows "returns env checkDomainHeuristics"
  unfolding returns_def
proof (intro allI impI)
  fix conn :: Connection and lp :: LayeredProfile and pkt :: "Packet option"
  assume "ConnEntity conn \<noteq> None"
  then obtain e where e: "ConnEntity conn = Some e" by auto
  from assms have "case EffectiveTLDPlusOne env (strings_TrimRight (Domain e) ''.'') of
      Inl err \<Rightarrow> True | Inr etld1 \<Rightarrow> length etld1 \<le> length (strings_TrimRight (Domain e) ''.'')"
    unfolding suffixLike_def by blast
  with e show "\<exists>b c. checkDomainHeuristics env conn lp pkt = Inr (b, c)"
    by (auto simp: checkDomainHeuristics_def Let_def split: sum.splits)
qed

lemma returns_others:
  "returns env checkPortmasterConnection" "returns env checkSelfCommunication"
  "returns env checkConnectionType" "returns env checkConnectionScope"
  "returns env checkEndpointLists" "returns env checkResolverScope"
  "returns env checkConnectivityDomain" "returns env checkBypassPrevention"
  "returns env checkFilterLists" "returns env dropInbound" "returns env checkAutoPermitRelated"
  by (auto simp: returns_def decider_defs Let_def
      split: option.splits sum.splits prod.splits EPResult.splits IPScope.splits)

lemma runDeciders_returns:
  assumes "\<forall>d \<in> set ds. wellBehaved d" and "\<forall>d \<in> set ds. returns env d"
    and "ConnEntity conn \<noteq> None"
  shows "\<exists>b da c. runDeciders env ds conn lp pkt = Inr (b, da, c)"
  using assms
proof (induction ds)
  case Nil
  then show ?case by auto
next
  case (Cons d ds)
  from Cons.prems obtain b c where d: "d env conn lp pkt = Inr (b, c)"
    unfolding returns_def by (meson list.set_intros(1))
  show ?case
  proof (cases b)
    case True
    with d show ?thesis by auto
  next
    case False
    from Cons.prems(1) d False have "c = conn" unfolding wellBehaved_def
      by (metis (full_types) list.set_intros(1))
    with d False Cons show ?thesis by auto
  qed
qed

lemma DecideOnConnection_returns:
  assumes "suffixLike env" and "ConnEntity conn \<noteq> None"
  shows "\<exists>c. DecideOnConnection env conn pkt = Inr c"
proof (cases "Profile (ConnProcess conn)")
  case None
  then show ?thesis by (simp add: DecideOnConnection_def)
next
  case (Some lp0)
  obtain lp conn1 where r: "checkProfileRevision env lp0 conn = (lp, conn1)"
    by (cases "checkProfileRevision env lp0 conn")
  from assms(2) r have e: "ConnEntity conn1 \<noteq> None"
    by (auto dest: revision_entity)
  have all: "\<forall>d \<in> set defaultDeciders. returns env d"
    using assms(1) by (simp add: defaultDeciders_def returns_others returns_checkDomainHeuristics)
  have dns: "\<forall>d \<in> set dnsFromSystemResolverDeciders. returns env d"
    by (simp add: dnsFromSystemResolverDeciders_def returns_others)
  from runDeciders_returns [OF wb_defaultDeciders all e]
  obtain b da c where 1: "runDeciders env defaultDeciders conn1 lp pkt = Inr (b, da, c)" by blast
  from runDeciders_returns [OF wb_dnsDeciders dns e]
  obtain b' da' c' where 2: "runDeciders env dnsFromSystemResolverDeciders conn1 lp pkt = Inr (b', da', c')"
    by blast
  from Some r 1 2 show ?thesis by (simp add: DecideOnConnection_def)
qed

end
